theory Spec2Isabelle
  imports Main "HOL-Library.Sublist"
begin

section \<open>Python values and exceptions\<close>

text \<open>
  The program is one Python module, \<^verbatim>\<open>app.py\<close>: \<^verbatim>\<open>search_and_parse\<close> (search, then
  fetch and extract each result page), \<^verbatim>\<open>run_conversation\<close> (an async generator driving
  two model streams around one tool call) and \<^verbatim>\<open>generate_stream\<close> (the failure boundary).

  An exception is an instance of Python's \<^verbatim>\<open>Exception\<close>. The source tells three kinds
  apart with \<^verbatim>\<open>isinstance\<close> tests (its \<^verbatim>\<open>except\<close> clauses), so an exception carries
  the answers to those tests and its \<^verbatim>\<open>str(e)\<close>. Signals that are not instances of
  \<^verbatim>\<open>Exception\<close> (task cancellation, closing a generator) are outside this model.

  A Python string is a \<open>string\<close>, one character for one code point, so that slicing
  \<^verbatim>\<open>s[:n]\<close> is \<open>take n s\<close>. A model stream is finite: the chunks it yields are a list.
\<close>

record exn =
  is_timeout :: bool
  is_client_error :: bool
  message :: string

definition other_error :: "string \<Rightarrow> exn" where
  "other_error m = \<lparr>is_timeout = False, is_client_error = False, message = m\<rparr>"

definition IndexError :: exn where
  "IndexError = other_error ''list index out of range''"

definition AttributeError :: "string \<Rightarrow> string \<Rightarrow> exn" where
  "AttributeError ty attr =
     other_error ([CHR 0x27] @ ty @ [CHR 0x27] @ '' object has no attribute '' @ [CHR 0x27] @ attr @ [CHR 0x27])"

definition KeyError :: "string \<Rightarrow> exn" where
  "KeyError k = other_error ([CHR 0x27] @ k @ [CHR 0x27])"

definition TypeError :: "string \<Rightarrow> exn" where
  "TypeError m = other_error m"

text \<open>
  \<^verbatim>\<open>StopIteration\<close> and \<^verbatim>\<open>StopAsyncIteration\<close> are instances of \<^verbatim>\<open>Exception\<close> too, and Python
  treats them apart: when one of them is about to leave the body of an async generator,
  the generator hands its consumer a \<^verbatim>\<open>RuntimeError\<close> instead, whose text names the class.
  \<^verbatim>\<open>run_conversation\<close> is an async generator and catches nothing, so an exception raised
  by a call made directly in its body leaves it at once. What such a call raises is
  therefore an exception together with the answer to that test, and \<open>leaving_generator\<close>
  is the exception the consumer is handed. A \<^verbatim>\<open>StopIteration\<close> raised inside an awaited
  coroutine reaches the body as that coroutine's \<^verbatim>\<open>RuntimeError\<close>, which is an exception of
  the first kind.
\<close>

datatype stop = StopIteration | StopAsyncIteration

definition RuntimeError :: "string \<Rightarrow> exn" where
  "RuntimeError m = other_error m"

type_synonym raised = "exn \<times> stop option"

fun leaving_generator :: "raised \<Rightarrow> exn" where
  "leaving_generator (e, None) = e"
| "leaving_generator (e, Some StopIteration) =
     RuntimeError ''async generator raised StopIteration''"
| "leaving_generator (e, Some StopAsyncIteration) =
     RuntimeError ''async generator raised StopAsyncIteration''"

text \<open>
  A value found in the parsed tool arguments: \<^verbatim>\<open>None\<close>, a string, or any other JSON
  value, which is kept as the text \<^verbatim>\<open>str\<close> gives for it. \<open>py_str\<close> is what an f-string
  prints.
\<close>

datatype pyval = PyNone | PyStr string | PyOther string

fun py_str :: "pyval \<Rightarrow> string" where
  "py_str PyNone = ''None''"
| "py_str (PyStr s) = s"
| "py_str (PyOther s) = s"

text \<open>
  What \<^verbatim>\<open>json.loads\<close> returns: a dict, or a value of another type (named), on which
  \<^verbatim>\<open>.get\<close> raises AttributeError.
\<close>

datatype parsed = NonDict string | Dict "string \<Rightarrow> pyval option"

fun dict_get :: "parsed \<Rightarrow> string \<Rightarrow> exn + pyval" where
  "dict_get (NonDict ty) k = Inl (AttributeError ty ''get'')"
| "dict_get (Dict d) k = Inr (case d k of None \<Rightarrow> PyNone | Some v \<Rightarrow> v)"

text \<open>Decimal printing of a status code, as an f-string prints an int.\<close>

fun str_nat :: "nat \<Rightarrow> string" where
  "str_nat n =
     (if n < 10 then [''0123456789'' ! n]
      else str_nat (n div 10) @ [''0123456789'' ! (n mod 10)])"

declare str_nat.simps [simp del]

abbreviation NL :: char where
  "NL \<equiv> CHR 0x0A"

section \<open>The collaborators\<close>

text \<open>
  A chunk of a model stream. \<^verbatim>\<open>chunk.choices[i].delta\<close> is the only part of a choice the
  source reads, so \<open>choices\<close> lists the deltas. Every attribute the client library types
  as optional is an option here.
\<close>

record tc_function =
  fn_name :: "string option"
  fn_arguments :: "string option"

record tool_call =
  tc_function :: "tc_function option"

record delta =
  content :: "string option"
  tool_calls :: "tool_call list option"

record chunk =
  choices :: "delta list"

text \<open>
  A stream is the chunks its iterator yields and then how the iteration ends: exhausted
  (\<open>None\<close>) or with an exception. A \<^verbatim>\<open>StopAsyncIteration\<close> from the iterator is the
  exhausted stream, and a \<^verbatim>\<open>StopIteration\<close> cannot come out of the awaited call, so the
  exception that ends a stream is never one of the two.
\<close>

type_synonym stream = "chunk list \<times> exn option"

text \<open>
  One entry of the list \<^verbatim>\<open>search_and_parse\<close> returns: a dict with the keys
  \<^verbatim>\<open>url\<close>, \<^verbatim>\<open>content\<close> and \<^verbatim>\<open>error\<close>, each present or not.
\<close>

record page_result =
  r_url :: "string option"
  r_content :: "string option"
  r_error :: "string option"

text \<open>
  A message of the conversation. The content of the tool-result message is
  \<^verbatim>\<open>json.dumps(search_results)\<close>, kept as the list it serialises.
\<close>

datatype content = Text string | JsonDumps "page_result list"

record message =
  role :: string
  m_name :: "string option"
  m_content :: content

text \<open>
  A completion request: the model, the messages and the tool declaration. \<open>req_tools\<close>
  holds the names of the declared tools, \<open>None\<close> when the call passes no \<^verbatim>\<open>tools\<close>. The
  sampling parameters are the same constants in both calls and are left out.
\<close>

record request =
  req_model :: string
  req_messages :: "message list"
  req_tools :: "string list option"
  req_tool_choice :: "string option"

record page_response =
  page_status :: nat
  page_text :: "exn + string"

record organic_result =
  link :: "string option"

text \<open>
  The JSON body of the search response: an object, with the value of its key
  \<^verbatim>\<open>organic\<close> when it has one, or a value of another type (named).
\<close>

datatype search_json = NonObject string | Object "organic_result list option"

record search_response =
  status :: nat
  json :: "exn + search_json"

text \<open>
  The outside world, as the functions the module calls:
  \<^verbatim>\<open>client.chat.completions.create\<close>, \<^verbatim>\<open>json.loads\<close>, \<^verbatim>\<open>session.post\<close> on the search
  endpoint (by the query it sends), \<^verbatim>\<open>session.get\<close> (by URL) and trafilatura's
  \<^verbatim>\<open>extract\<close>. Each raises (\<open>Inl\<close>) or returns. The first two are called in the body of
  the generator, where it matters whether the exception is one of the two stop classes;
  the other three are called inside \<^verbatim>\<open>try\<close> blocks that catch every exception alike.
\<close>

record env =
  create :: "request \<Rightarrow> raised + stream"
  json_loads :: "string \<Rightarrow> raised + parsed"
  session_post :: "pyval \<Rightarrow> exn + search_response"
  session_get :: "string \<Rightarrow> exn + page_response"
  extract_text :: "string \<Rightarrow> exn + string option"

section \<open>search\_and\_parse\<close>

definition error_only :: "string \<Rightarrow> page_result" where
  "error_only m = \<lparr>r_url = None, r_content = None, r_error = Some m\<rparr>"

definition url_error :: "string \<Rightarrow> string \<Rightarrow> page_result" where
  "url_error u m = \<lparr>r_url = Some u, r_content = None, r_error = Some m\<rparr>"

definition url_content :: "string \<Rightarrow> string \<Rightarrow> page_result" where
  "url_content u c = \<lparr>r_url = Some u, r_content = Some c, r_error = None\<rparr>"

text \<open>The three \<^verbatim>\<open>except\<close> clauses of the fetch loop, in the source's order.\<close>

definition on_fetch_error :: "string \<Rightarrow> exn \<Rightarrow> page_result" where
  "on_fetch_error url e =
     (if is_timeout e then url_error url ''Request timed out''
      else if is_client_error e then url_error url (''Client error: '' @ message e)
      else url_error url (''Unexpected error: '' @ message e))"

text \<open>The body of the loop over the URLs: the entry appended for one URL.\<close>

definition fetch_one :: "env \<Rightarrow> string \<Rightarrow> page_result" where
  "fetch_one env url =
     (case session_get env url of
        Inl e \<Rightarrow> on_fetch_error url e
      | Inr page_response \<Rightarrow>
          if page_status page_response = 200 then
            (case page_text page_response of
               Inl e \<Rightarrow> on_fetch_error url e
             | Inr html_content \<Rightarrow>
                 (case extract_text env html_content of
                    Inl e \<Rightarrow> on_fetch_error url e
                  | Inr None \<Rightarrow> url_error url ''No main content extracted''
                  | Inr (Some extracted_text) \<Rightarrow>
                      if extracted_text \<noteq> [] then url_content url (take 1000 extracted_text)
                      else url_error url ''No main content extracted''))
          else url_error url
                 (''Failed to retrieve content: HTTP '' @ str_nat (page_status page_response)))"

fun fetch_loop :: "env \<Rightarrow> string list \<Rightarrow> page_result list \<Rightarrow> page_result list" where
  "fetch_loop env [] results = results"
| "fetch_loop env (url # urls) results = fetch_loop env urls (results @ [fetch_one env url])"

text \<open>The URLs of the search results: the \<^verbatim>\<open>link\<close> of every result that has one.\<close>

definition urls_of :: "search_json \<Rightarrow> exn + string list" where
  "urls_of search_results =
     (case search_results of
        NonObject ty \<Rightarrow> Inl (AttributeError ty ''get'')
      | Object organic \<Rightarrow>
          Inr (List.map_filter link (case organic of None \<Rightarrow> [] | Some rs \<Rightarrow> rs)))"

definition search_and_parse :: "env \<Rightarrow> pyval \<Rightarrow> exn + page_result list" where
  "search_and_parse env query =
     (case session_post env query of
        Inl e \<Rightarrow> Inr [error_only (''Error during search API request: '' @ message e)]
      | Inr response \<Rightarrow>
          if status response \<noteq> 200 then
            Inr [error_only (''Serper API request failed with status code '' @ str_nat (status response))]
          else
            (case json response of
               Inl e \<Rightarrow> Inr [error_only (''Error during search API request: '' @ message e)]
             | Inr search_results \<Rightarrow>
                 (case urls_of search_results of
                    Inl e \<Rightarrow> Inl e
                  | Inr urls \<Rightarrow> Inr (fetch_loop env urls []))))"

section \<open>run\_conversation\<close>

definition system_prompt :: string where
  "system_prompt = ''You are an assistant that can search the web and provide information based on the search results. If there are errors in fetching or parsing web content, acknowledge them and try to provide the best response possible with the available information.ALways use the function if you do not know the answer. The function can be used multiple times until tou find the correct answer.''"

definition system_message :: message where
  "system_message = \<lparr>role = ''system'', m_name = None, m_content = Text system_prompt\<rparr>"

definition user_message :: "string \<Rightarrow> message" where
  "user_message user_prompt = \<lparr>role = ''user'', m_name = None, m_content = Text user_prompt\<rparr>"

definition tool_message :: "page_result list \<Rightarrow> message" where
  "tool_message search_results =
     \<lparr>role = ''function'', m_name = Some ''search_and_parse'', m_content = JsonDumps search_results\<rparr>"

definition MODEL :: string where
  "MODEL = ''llama3-groq-70b-8192-tool-use-preview''"

text \<open>The two completion requests: the first declares the tool, the second passes no tools.\<close>

definition first_request :: "message list \<Rightarrow> request" where
  "first_request msgs =
     \<lparr>req_model = MODEL, req_messages = msgs,
      req_tools = Some [''search_and_parse''], req_tool_choice = Some ''auto''\<rparr>"

definition final_request :: "message list \<Rightarrow> request" where
  "final_request msgs =
     \<lparr>req_model = MODEL, req_messages = msgs, req_tools = None, req_tool_choice = None\<rparr>"

text \<open>
  The state of one run of the generator: the fragments yielded so far, the local
  variables \<^verbatim>\<open>messages\<close> and \<^verbatim>\<open>search_performed\<close>, and a log of the calls made so far to
  the model service (\<open>requests\<close>) and to \<^verbatim>\<open>search_and_parse\<close> (\<open>searches\<close>, by argument).
  A run ends with a state and, when an exception leaves the generator, the exception
  its consumer is handed.
\<close>

record conv =
  out :: "string list"
  messages :: "message list"
  search_performed :: bool
  requests :: "request list"
  searches :: "pyval list"

type_synonym outcome = "conv \<times> exn option"

definition yield :: "string \<Rightarrow> conv \<Rightarrow> conv" where
  "yield s st = st\<lparr>out := out st @ [s]\<rparr>"

text \<open>The loop over \<^verbatim>\<open>final_stream\<close>.\<close>

fun final_loop :: "chunk list \<Rightarrow> exn option \<Rightarrow> conv \<Rightarrow> outcome" where
  "final_loop [] failure st = (st, failure)"
| "final_loop (final_chunk # rest) failure st =
     (case choices final_chunk of
        [] \<Rightarrow> (st, Some IndexError)
      | d # _ \<Rightarrow>
          final_loop rest failure (case content d of None \<Rightarrow> st | Some s \<Rightarrow> yield s st))"

text \<open>The loop over \<^verbatim>\<open>search_results\<close> that narrates each entry.\<close>

fun narrate :: "page_result list \<Rightarrow> conv \<Rightarrow> outcome" where
  "narrate [] st = (st, None)"
| "narrate (result # rest) st =
     (case r_error result of
        Some err \<Rightarrow>
          narrate rest
            (yield (''Error for '' @ (case r_url result of None \<Rightarrow> ''unknown URL'' | Some u \<Rightarrow> u)
                      @ '': '' @ err @ [NL]) st)
      | None \<Rightarrow>
          (case r_url result of
             None \<Rightarrow> (st, Some (KeyError ''url''))
           | Some u \<Rightarrow>
               (case r_content result of
                  None \<Rightarrow>
                    (yield (''Found relevant information from: '' @ u @ [NL]) st,
                     Some (KeyError ''content''))
                | Some c \<Rightarrow>
                    narrate rest
                      (yield (''Summary: '' @ take 200 c @ ''...'' @ [NL, NL])
                         (yield (''Found relevant information from: '' @ u @ [NL]) st)))))"

text \<open>
  The body of \<^verbatim>\<open>if tool_call.function.name == "search_and_parse"\<close>: set the flag, parse
  the arguments, announce and run the search, narrate the results, append the tool
  message, open the final stream and forward it.
\<close>

definition on_tool_call :: "env \<Rightarrow> tc_function \<Rightarrow> conv \<Rightarrow> outcome" where
  "on_tool_call env f st0 =
     (let st1 = st0\<lparr>search_performed := True\<rparr> in
      case (case fn_arguments f of
              None \<Rightarrow>
                Inl (TypeError ''the JSON object must be str, bytes or bytearray, not NoneType'', None)
            | Some a \<Rightarrow> json_loads env a) of
        Inl r \<Rightarrow> (st1, Some (leaving_generator r))
      | Inr function_args \<Rightarrow>
          (case dict_get function_args ''query'' of
             Inl e \<Rightarrow> (st1, Some e)
           | Inr query \<Rightarrow>
               (let st2 = yield ([NL] @ ''Searching the web for: '' @ py_str query @ [NL]) st1;
                    st3 = st2\<lparr>searches := searches st2 @ [query]\<rparr>
                in case search_and_parse env query of
                     Inl e \<Rightarrow> (st3, Some e)
                   | Inr search_results \<Rightarrow>
                       (case narrate search_results st3 of
                          (st4, Some e) \<Rightarrow> (st4, Some e)
                        | (st4, None) \<Rightarrow>
                            (let st5 = st4\<lparr>messages := messages st4 @ [tool_message search_results]\<rparr>;
                                 st6 = st5\<lparr>requests := requests st5 @ [final_request (messages st5)]\<rparr>
                             in case create env (final_request (messages st5)) of
                                  Inl r \<Rightarrow> (st6, Some (leaving_generator r))
                                | Inr (final_chunks, failure) \<Rightarrow>
                                    final_loop final_chunks failure
                                      (yield ([NL] @ ''Final response incorporating search results:'' @ [NL])
                                         st6))))))"

text \<open>The body of the loop over the first stream: what one chunk does.\<close>

definition on_chunk :: "env \<Rightarrow> chunk \<Rightarrow> conv \<Rightarrow> outcome" where
  "on_chunk env c st =
     (case choices c of
        [] \<Rightarrow> (st, Some IndexError)
      | d # _ \<Rightarrow>
          (case content d of
             Some s \<Rightarrow> (yield s st, None)
           | None \<Rightarrow>
               (case tool_calls d of
                  None \<Rightarrow> (st, None)
                | Some tcs \<Rightarrow>
                    if search_performed st then (st, None)
                    else
                      (case tcs of
                         [] \<Rightarrow> (st, Some IndexError)
                       | tc # _ \<Rightarrow>
                           (case tc_function tc of
                              None \<Rightarrow> (st, Some (AttributeError ''NoneType'' ''name''))
                            | Some f \<Rightarrow>
                                if fn_name f = Some ''search_and_parse'' then on_tool_call env f st
                                else (st, None))))))"

fun stream_loop :: "env \<Rightarrow> chunk list \<Rightarrow> exn option \<Rightarrow> conv \<Rightarrow> outcome" where
  "stream_loop env [] failure st = (st, failure)"
| "stream_loop env (c # rest) failure st =
     (case on_chunk env c st of
        (st', Some e) \<Rightarrow> (st', Some e)
      | (st', None) \<Rightarrow> stream_loop env rest failure st')"

definition initial_messages :: "string \<Rightarrow> message list" where
  "initial_messages user_prompt = [system_message, user_message user_prompt]"

definition initial_conv :: "string \<Rightarrow> conv" where
  "initial_conv user_prompt =
     \<lparr>out = [], messages = initial_messages user_prompt, search_performed = False,
      requests = [first_request (initial_messages user_prompt)], searches = []\<rparr>"

definition run_conversation :: "env \<Rightarrow> string \<Rightarrow> outcome" where
  "run_conversation env user_prompt =
     (case create env (first_request (initial_messages user_prompt)) of
        Inl r \<Rightarrow> (initial_conv user_prompt, Some (leaving_generator r))
      | Inr (chunks, failure) \<Rightarrow> stream_loop env chunks failure (initial_conv user_prompt))"

section \<open>generate\_stream\<close>

text \<open>
  The fragments the adapter yields, and the exception that leaves it (none: its
  \<^verbatim>\<open>except Exception\<close> clause turns the exception into a last fragment).
\<close>

definition generate_stream :: "env \<Rightarrow> string \<Rightarrow> string list \<times> exn option" where
  "generate_stream env query =
     (case run_conversation env query of
        (st, None) \<Rightarrow> (out st, None)
      | (st, Some e) \<Rightarrow> (out st @ [''An error occurred: '' @ message e], None))"

section \<open>Vocabulary of the properties\<close>

text \<open>The text fragment a chunk carries (none when its delta has no content).\<close>

definition text_of :: "chunk \<Rightarrow> string list" where
  "text_of c =
     (case choices c of
        [] \<Rightarrow> []
      | d # _ \<Rightarrow> (case content d of None \<Rightarrow> [] | Some s \<Rightarrow> [s]))"

definition texts :: "chunk list \<Rightarrow> string list" where
  "texts cs = concat (map text_of cs)"

text \<open>A chunk with a choice, and a chunk whose delta carries no tool call.\<close>

definition well_formed :: "chunk \<Rightarrow> bool" where
  "well_formed c = (choices c \<noteq> [])"

definition no_signal :: "chunk \<Rightarrow> bool" where
  "no_signal c = (case choices c of [] \<Rightarrow> False | d # _ \<Rightarrow> tool_calls d = None)"

text \<open>
  A tool-invocation signal: a chunk whose delta carries tool calls, the first of them
  being the call of function \<open>f\<close>. \<open>calls_search\<close> is a signal with no text content that
  names \<^verbatim>\<open>search_and_parse\<close>.
\<close>

definition signal :: "chunk \<Rightarrow> tc_function \<Rightarrow> bool" where
  "signal c f =
     (case choices c of
        [] \<Rightarrow> False
      | d # _ \<Rightarrow>
          (case tool_calls d of
             Some (tc # _) \<Rightarrow> tc_function tc = Some f
           | _ \<Rightarrow> False))"

definition calls_search :: "chunk \<Rightarrow> tc_function \<Rightarrow> bool" where
  "calls_search c f =
     (signal c f \<and> text_of c = [] \<and> fn_name f = Some ''search_and_parse'')"

text \<open>
  A chunk the first loop passes over while no search has been performed: it has a choice
  whose delta carries a text, or no tool call, or a first tool call that names another
  function.
\<close>

definition passed_over :: "chunk \<Rightarrow> bool" where
  "passed_over c =
     (case choices c of
        [] \<Rightarrow> False
      | d # _ \<Rightarrow>
          content d \<noteq> None \<or>
          (case tool_calls d of
             None \<Rightarrow> True
           | Some tcs \<Rightarrow>
               (case tcs of
                  [] \<Rightarrow> False
                | tc # _ \<Rightarrow>
                    (case tc_function tc of
                       None \<Rightarrow> False
                     | Some f \<Rightarrow> fn_name f \<noteq> Some ''search_and_parse''))))"

text \<open>The fragments that narrate one entry of the search results.\<close>

definition error_narration :: "page_result \<Rightarrow> string \<Rightarrow> string" where
  "error_narration r err =
     ''Error for '' @ (case r_url r of None \<Rightarrow> ''unknown URL'' | Some u \<Rightarrow> u) @ '': '' @ err @ [NL]"

definition source_line :: "string \<Rightarrow> string" where
  "source_line u = ''Found relevant information from: '' @ u @ [NL]"

definition summary_line :: "string \<Rightarrow> string" where
  "summary_line c = ''Summary: '' @ take 200 c @ ''...'' @ [NL, NL]"

definition narration :: "page_result \<Rightarrow> string list" where
  "narration r =
     (case r_error r of
        Some err \<Rightarrow> [error_narration r err]
      | None \<Rightarrow>
          (case (r_url r, r_content r) of
             (Some u, Some c) \<Rightarrow> [source_line u, summary_line c]
           | _ \<Rightarrow> []))"

definition searching_line :: "pyval \<Rightarrow> string" where
  "searching_line q = [NL] @ ''Searching the web for: '' @ py_str q @ [NL]"

definition final_line :: string where
  "final_line = [NL] @ ''Final response incorporating search results:'' @ [NL]"

text \<open>An entry the narration loop can print: it has an error, or a URL and a content.\<close>

definition narratable :: "page_result \<Rightarrow> bool" where
  "narratable r = (r_error r \<noteq> None \<or> (r_url r \<noteq> None \<and> r_content r \<noteq> None))"

section \<open>An example world\<close>

text \<open>
  A conversation in which the model asks for one search. The search returns six
  results, five of them with a link: the first page extracts to a text of 1200
  characters, the second fetch times out, the third answers 404, the fourth page has no
  main content and the fifth connection fails.
\<close>

definition ex_prompt :: string where
  "ex_prompt = ''weather in Paris''"

definition ex_arguments :: string where
  "ex_arguments = ''{\"query\": \"weather in Paris\"}''"

definition ex_query :: pyval where
  "ex_query = PyStr ''weather in Paris''"

definition text_chunk :: "string \<Rightarrow> chunk" where
  "text_chunk s = \<lparr>choices = [\<lparr>content = Some s, tool_calls = None\<rparr>]\<rparr>"

definition call_chunk :: "string \<Rightarrow> string \<Rightarrow> chunk" where
  "call_chunk f_name args =
     \<lparr>choices = [\<lparr>content = None,
                  tool_calls = Some [\<lparr>tc_function = Some \<lparr>fn_name = Some f_name, fn_arguments = Some args\<rparr>\<rparr>]\<rparr>]\<rparr>"

definition ex_stream1 :: stream where
  "ex_stream1 =
     ([text_chunk ''Let me check.'', call_chunk ''search_and_parse'' ex_arguments,
       text_chunk ''Anything else?''], None)"

definition ex_stream2 :: stream where
  "ex_stream2 = ([text_chunk ''It is '', text_chunk ''sunny.''], None)"

definition ex_long_text :: string where
  "ex_long_text = replicate 1200 (CHR ''x'')"

definition ex_organic :: "organic_result list" where
  "ex_organic =
     [\<lparr>link = Some ''https://a.example''\<rparr>, \<lparr>link = None\<rparr>,
      \<lparr>link = Some ''https://b.example''\<rparr>, \<lparr>link = Some ''https://c.example''\<rparr>,
      \<lparr>link = Some ''https://d.example''\<rparr>, \<lparr>link = Some ''https://e.example''\<rparr>]"

definition ex_urls :: "string list" where
  "ex_urls = [''https://a.example'', ''https://b.example'', ''https://c.example'',
              ''https://d.example'', ''https://e.example'']"

definition ex_search_response :: search_response where
  "ex_search_response = \<lparr>status = 200, json = Inr (Object (Some ex_organic))\<rparr>"

definition ex_timeout :: exn where
  "ex_timeout = \<lparr>is_timeout = True, is_client_error = False, message = []\<rparr>"

definition ex_client_error :: exn where
  "ex_client_error =
     \<lparr>is_timeout = False, is_client_error = True, message = ''Cannot connect to host''\<rparr>"

definition ex_get :: "string \<Rightarrow> exn + page_response" where
  "ex_get u =
     (if u = ''https://a.example'' then Inr \<lparr>page_status = 200, page_text = Inr ''<p>Paris</p>''\<rparr>
      else if u = ''https://b.example'' then Inl ex_timeout
      else if u = ''https://c.example'' then Inr \<lparr>page_status = 404, page_text = Inr ''Not Found''\<rparr>
      else if u = ''https://d.example'' then Inr \<lparr>page_status = 200, page_text = Inr ''<br>''\<rparr>
      else Inl ex_client_error)"

definition ex_env :: env where
  "ex_env =
     \<lparr>create = (\<lambda>req. if req_tools req = None then Inr ex_stream2 else Inr ex_stream1),
      json_loads = (\<lambda>s. if s = ex_arguments then Inr (Dict [''query'' \<mapsto> ex_query])
                         else Inl (other_error ''Expecting value'', None)),
      session_post = (\<lambda>q. Inr ex_search_response),
      session_get = ex_get,
      extract_text = (\<lambda>h. if h = ''<p>Paris</p>'' then Inr (Some ex_long_text) else Inr None)\<rparr>"

definition ex_results :: "page_result list" where
  "ex_results =
     [url_content ''https://a.example'' (replicate 1000 (CHR ''x'')),
      url_error ''https://b.example'' ''Request timed out'',
      url_error ''https://c.example'' ''Failed to retrieve content: HTTP 404'',
      url_error ''https://d.example'' ''No main content extracted'',
      url_error ''https://e.example'' ''Client error: Cannot connect to host'']"

definition ex_function :: tc_function where
  "ex_function = \<lparr>fn_name = Some ''search_and_parse'', fn_arguments = Some ex_arguments\<rparr>"

text \<open>The same world with a model that answers in plain text.\<close>

definition ex_plain_chunks :: "chunk list" where
  "ex_plain_chunks = [text_chunk ''Paris is the capital '', text_chunk ''of France.'']"

definition ex_env_plain :: env where
  "ex_env_plain = ex_env\<lparr>create := (\<lambda>req. Inr (ex_plain_chunks, None))\<rparr>"

text \<open>The same world with a search provider that answers 500.\<close>

definition ex_env_search_down :: env where
  "ex_env_search_down =
     ex_env\<lparr>session_post := (\<lambda>q. Inr \<lparr>status = 500, json = Inl (other_error ''Expecting value'')\<rparr>)\<rparr>"

text \<open>The same world with a search that returns one page.\<close>

definition ex_env_one_page :: env where
  "ex_env_one_page =
     ex_env\<lparr>session_post :=
              (\<lambda>q. Inr \<lparr>status = 200,
                         json = Inr (Object (Some [\<lparr>link = Some ''https://a.example''\<rparr>]))\<rparr>)\<rparr>"

text \<open>
  The same world with a model that first calls a function named \<^verbatim>\<open>get_weather\<close> and then
  \<^verbatim>\<open>search_and_parse\<close>.
\<close>

definition ex_two_calls :: "chunk list" where
  "ex_two_calls =
     [call_chunk ''get_weather'' ex_arguments, call_chunk ''search_and_parse'' ex_arguments]"

definition ex_env_two_calls :: env where
  "ex_env_two_calls =
     ex_env\<lparr>create := (\<lambda>req. if req_tools req = None then Inr ex_stream2
                               else Inr (ex_two_calls, None))\<rparr>"

text \<open>The same world with a model that calls \<^verbatim>\<open>search_and_parse\<close> twice.\<close>

definition ex_env_twice :: env where
  "ex_env_twice =
     ex_env\<lparr>create := (\<lambda>req. if req_tools req = None then Inr ex_stream2
                               else Inr ([call_chunk ''search_and_parse'' ex_arguments,
                                          call_chunk ''search_and_parse'' ex_arguments], None))\<rparr>"

text \<open>The same world with a first stream that breaks after one chunk.\<close>

definition ex_env_broken :: env where
  "ex_env_broken =
     ex_env\<lparr>create := (\<lambda>req. Inr ([text_chunk ''Let me''], Some (other_error ''Connection reset'')))\<rparr>"

text \<open>
  The same world with a model service whose first call raises \<^verbatim>\<open>StopAsyncIteration\<close> with
  the text \<^verbatim>\<open>quota exceeded\<close>.
\<close>

definition ex_env_stopped :: env where
  "ex_env_stopped =
     ex_env\<lparr>create := (\<lambda>req. Inl (other_error ''quota exceeded'', Some StopAsyncIteration))\<rparr>"

text \<open>
  The state of a conversation on the prompt \<open>p\<close> between two steps of the first loop:
  before the search, nothing has been added; afterwards the flag is set, at most one
  search has been made, and either nothing else has changed or one tool message has been
  appended and the second request made over the extended messages.
\<close>

definition conv_ok :: "string \<Rightarrow> conv \<Rightarrow> bool" where
  "conv_ok p st =
     ((\<not> search_performed st \<and> searches st = [] \<and>
       messages st = initial_messages p \<and>
       requests st = [first_request (initial_messages p)]) \<or>
      (search_performed st \<and> length (searches st) \<le> 1 \<and>
       ((messages st = initial_messages p \<and>
         requests st = [first_request (initial_messages p)]) \<or>
        (\<exists>rs. messages st = initial_messages p @ [tool_message rs] \<and>
              requests st = [first_request (initial_messages p),
                             final_request (initial_messages p @ [tool_message rs])]))))"

section \<open>The time the fetch loop takes\<close>

text \<open>
  The loop over the URLs awaits the fetch of one URL before it starts the next
  iteration. \<open>fetch_loop_timed\<close> is the same loop with a clock beside the results:
  \<open>fetch_time url\<close> is the time the awaited fetch and extraction of \<open>url\<close> take, and an
  iteration moves the clock forward by that much. The loop's own steps count as taking
  no time.
\<close>

fun fetch_loop_timed ::
  "env \<Rightarrow> (string \<Rightarrow> nat) \<Rightarrow> string list \<Rightarrow> page_result list \<times> nat \<Rightarrow> page_result list \<times> nat" where
  "fetch_loop_timed env fetch_time [] (results, now) = (results, now)"
| "fetch_loop_timed env fetch_time (url # urls) (results, now) =
     fetch_loop_timed env fetch_time urls (results @ [fetch_one env url], now + fetch_time url)"

section \<open>Lemmas on the search pipeline\<close>

lemma fetch_loop_map: "fetch_loop env urls results = results @ map (fetch_one env) urls"
  by (induction urls arbitrary: results) simp_all

lemma fetch_one_content:
  "r_content (fetch_one env url) = Some c \<longleftrightarrow>
     (\<exists>resp html t. session_get env url = Inr resp \<and> page_status resp = 200 \<and>
        page_text resp = Inr html \<and> extract_text env html = Inr (Some t) \<and> t \<noteq> [] \<and>
        c = take 1000 t)"
  by (auto simp add: fetch_one_def on_fetch_error_def url_error_def url_content_def
      split: sum.splits option.splits)

lemma fetch_one_url: "r_url (fetch_one env url) = Some url"
  by (simp add: fetch_one_def on_fetch_error_def url_error_def url_content_def
      split: sum.splits option.splits)

lemma fetch_one_narratable: "narratable (fetch_one env url)"
  by (simp add: narratable_def fetch_one_def on_fetch_error_def url_error_def url_content_def
      split: sum.splits option.splits)

lemma error_only_narratable: "narratable (error_only m)"
  by (simp add: narratable_def error_only_def)

lemma search_and_parse_cases:
  assumes "search_and_parse env q = Inr rs"
  shows "(\<exists>m. rs = [error_only m]) \<or> (\<exists>urls. rs = map (fetch_one env) urls)"
  using assms
  by (auto simp add: search_and_parse_def fetch_loop_map split: sum.splits if_splits)

lemma search_and_parse_narratable:
  assumes "search_and_parse env q = Inr rs" "r \<in> set rs"
  shows "narratable r"
  using search_and_parse_cases[OF assms(1)] assms(2)
  by (auto simp add: fetch_one_narratable error_only_narratable)

lemma ex_search: "search_and_parse ex_env ex_query = Inr ex_results"
  by (simp add: ex_results_def search_and_parse_def urls_of_def List.map_filter_simps fetch_one_def
      ex_env_def ex_get_def ex_long_text_def ex_search_response_def ex_organic_def
      ex_timeout_def ex_client_error_def on_fetch_error_def str_nat.simps)

lemma search_and_parse_ok:
  assumes "session_post env query = Inr response" "status response = 200"
    "json response = Inr (Object organic)"
  shows "search_and_parse env query =
           Inr (map (fetch_one env)
                  (List.map_filter link (case organic of None \<Rightarrow> [] | Some rs \<Rightarrow> rs)))"
  using assms by (simp add: search_and_parse_def urls_of_def fetch_loop_map)

lemma fetch_one_one_of:
  "(r_content (fetch_one env url) = None) \<noteq> (r_error (fetch_one env url) = None)"
  by (simp add: fetch_one_def on_fetch_error_def url_error_def url_content_def
      split: sum.splits option.splits)

lemma fetch_one_raised:
  "session_get env u = Inl e \<Longrightarrow> fetch_one env u = on_fetch_error u e"
  by (simp add: fetch_one_def)

lemma fetch_one_status:
  "session_get env u = Inr resp \<Longrightarrow> page_status resp \<noteq> 200 \<Longrightarrow>
     fetch_one env u = url_error u (''Failed to retrieve content: HTTP '' @ str_nat (page_status resp))"
  by (simp add: fetch_one_def)

lemma fetch_one_extracted:
  "session_get env u = Inr resp \<Longrightarrow> page_status resp = 200 \<Longrightarrow> page_text resp = Inr html \<Longrightarrow>
   extract_text env html = Inr t \<Longrightarrow>
     fetch_one env u =
       (if t = None \<or> t = Some [] then url_error u ''No main content extracted''
        else url_content u (take 1000 (the t)))"
  by (auto simp add: fetch_one_def split: option.splits)

lemma ex_urls: "ex_urls = List.map_filter link (case Some ex_organic of None \<Rightarrow> [] | Some rs \<Rightarrow> rs)"
  by (simp add: ex_urls_def ex_organic_def List.map_filter_simps)

lemma search_and_parse_cong:
  assumes "session_post env' = session_post env" "session_get env' = session_get env"
    "extract_text env' = extract_text env"
  shows "search_and_parse env' q = search_and_parse env q"
proof -
  have "fetch_one env' u = fetch_one env u" for u
    unfolding fetch_one_def assms by (rule refl)
  then have f: "fetch_one env' = fetch_one env"
    by (simp add: fun_eq_iff)
  show ?thesis
    unfolding search_and_parse_def fetch_loop_map assms(1) f by (rule refl)
qed

lemma fetch_loop_timed_results:
  "fst (fetch_loop_timed env fetch_time urls (results, now)) = fetch_loop env urls results"
  by (induction urls arbitrary: results now) simp_all

lemma fetch_loop_timed_clock:
  "snd (fetch_loop_timed env fetch_time urls (results, now)) =
     now + sum_list (map fetch_time urls)"
  by (induction urls arbitrary: results now) simp_all

lemma fetch_loop_timed_append:
  "fetch_loop_timed env fetch_time (xs @ ys) s =
     fetch_loop_timed env fetch_time ys (fetch_loop_timed env fetch_time xs s)"
proof (induction xs arbitrary: s)
  case Nil
  then show ?case by (cases s) simp
next
  case (Cons x xs)
  then show ?case by (cases s) simp
qed

section \<open>Lemmas on the conversation loops\<close>

lemma final_loop_well_formed:
  "\<forall>c\<in>set cs. well_formed c \<Longrightarrow>
     final_loop cs failure st = (st\<lparr>out := out st @ texts cs\<rparr>, failure)"
proof (induction cs arbitrary: st)
  case Nil
  then show ?case by (simp add: texts_def)
next
  case (Cons c cs)
  then obtain d ds where c: "choices c = d # ds"
    by (cases "choices c") (auto simp: well_formed_def)
  show ?case
    using Cons c by (cases "content d") (simp_all add: texts_def text_of_def yield_def)
qed

lemma final_loop_frame:
  "messages (fst (final_loop cs failure st)) = messages st \<and>
   search_performed (fst (final_loop cs failure st)) = search_performed st \<and>
   requests (fst (final_loop cs failure st)) = requests st \<and>
   searches (fst (final_loop cs failure st)) = searches st"
  by (induction cs arbitrary: st) (simp_all add: yield_def split: list.splits option.splits)

lemma narrate_frame:
  "messages (fst (narrate rs st)) = messages st \<and>
   search_performed (fst (narrate rs st)) = search_performed st \<and>
   requests (fst (narrate rs st)) = requests st \<and>
   searches (fst (narrate rs st)) = searches st"
  by (induction rs arbitrary: st) (simp_all add: yield_def split: list.splits option.splits)

lemma narrate_narratable:
  "\<forall>r\<in>set rs. narratable r \<Longrightarrow>
     narrate rs st = (st\<lparr>out := out st @ concat (map narration rs)\<rparr>, None)"
proof (induction rs arbitrary: st)
  case Nil
  then show ?case by simp
next
  case (Cons r rs)
  then show ?case
    by (auto simp add: narratable_def narration_def yield_def error_narration_def
        source_line_def summary_line_def split: option.splits)
qed

lemma on_chunk_no_signal:
  "no_signal c \<Longrightarrow> on_chunk env c st = (st\<lparr>out := out st @ text_of c\<rparr>, None)"
  by (simp add: no_signal_def on_chunk_def text_of_def yield_def split: list.splits option.splits)

lemma on_chunk_performed:
  "search_performed st \<Longrightarrow> well_formed c \<Longrightarrow>
     on_chunk env c st = (st\<lparr>out := out st @ text_of c\<rparr>, None)"
  by (simp add: well_formed_def on_chunk_def text_of_def yield_def split: list.splits option.splits)

lemma on_chunk_calls_search:
  "calls_search c f \<Longrightarrow> \<not> search_performed st \<Longrightarrow> on_chunk env c st = on_tool_call env f st"
  by (auto simp add: calls_search_def signal_def on_chunk_def text_of_def
      split: list.splits option.splits)

lemma stream_loop_append:
  "stream_loop env (xs @ ys) failure st =
     (case stream_loop env xs None st of
        (st', Some e) \<Rightarrow> (st', Some e)
      | (st', None) \<Rightarrow> stream_loop env ys failure st')"
  by (induction xs arbitrary: st) (simp_all split: prod.splits option.splits)

lemma stream_loop_no_signal:
  "\<forall>c\<in>set cs. no_signal c \<Longrightarrow>
     stream_loop env cs failure st = (st\<lparr>out := out st @ texts cs\<rparr>, failure)"
  by (induction cs arbitrary: st) (simp_all add: on_chunk_no_signal texts_def)

lemma stream_loop_performed:
  "search_performed st \<Longrightarrow> \<forall>c\<in>set cs. well_formed c \<Longrightarrow>
     stream_loop env cs failure st = (st\<lparr>out := out st @ texts cs\<rparr>, failure)"
  by (induction cs arbitrary: st) (simp_all add: on_chunk_performed texts_def)

lemma on_tool_call_ok:
  assumes "fn_arguments f = Some a" "json_loads env a = Inr (Dict d)"
    and "q = (case d ''query'' of None \<Rightarrow> PyNone | Some v \<Rightarrow> v)"
    and "search_and_parse env q = Inr results"
    and "create env (final_request (messages st @ [tool_message results])) = Inr (chunks2, failure2)"
    and "\<forall>c\<in>set chunks2. well_formed c"
  shows "on_tool_call env f st =
           (st\<lparr>out := out st @ [searching_line q] @ concat (map narration results) @ [final_line]
                          @ texts chunks2,
               messages := messages st @ [tool_message results],
               search_performed := True,
               requests := requests st @ [final_request (messages st @ [tool_message results])],
               searches := searches st @ [q]\<rparr>, failure2)"
proof -
  have n: "\<forall>r\<in>set results. narratable r"
    using search_and_parse_narratable[OF assms(4)] by blast
  show ?thesis
    using assms(1,2,4,5)
    by (simp add: on_tool_call_def Let_def assms(3)[symmetric] narrate_narratable[OF n]
        final_loop_well_formed[OF assms(6)] yield_def searching_line_def final_line_def)
qed

lemma on_chunk_passed_over:
  assumes "passed_over c"
  shows "on_chunk env c st = (st\<lparr>out := out st @ text_of c\<rparr>, None)"
proof -
  have "passed_over c \<longrightarrow> on_chunk env c st = (st\<lparr>out := out st @ text_of c\<rparr>, None)"
    by (simp add: passed_over_def on_chunk_def text_of_def yield_def
        split: list.split option.split)
  with assms show ?thesis by simp
qed

lemma no_signal_passed_over: "no_signal c \<Longrightarrow> passed_over c"
  by (auto simp add: no_signal_def passed_over_def split: list.splits)

lemma stream_loop_passed_over:
  "\<forall>c\<in>set cs. passed_over c \<Longrightarrow>
     stream_loop env cs failure st = (st\<lparr>out := out st @ texts cs\<rparr>, failure)"
  by (induction cs arbitrary: st) (simp_all add: on_chunk_passed_over texts_def)

lemma run_tool_path:
  assumes "create env (first_request (initial_messages p)) = Inr (pre @ c # post, failure1)"
    and "\<forall>x\<in>set pre. passed_over x"
    and "calls_search c f"
    and "fn_arguments f = Some a"
    and "json_loads env a = Inr (Dict d)"
    and "q = (case d ''query'' of None \<Rightarrow> PyNone | Some v \<Rightarrow> v)"
    and "search_and_parse env q = Inr results"
    and "create env (final_request (initial_messages p @ [tool_message results])) = Inr (chunks2, failure2)"
    and "\<forall>x\<in>set chunks2. well_formed x"
    and "\<forall>x\<in>set post. well_formed x"
  shows "run_conversation env p =
           (\<lparr>out = texts pre @ [searching_line q] @ concat (map narration results) @ [final_line]
                     @ texts chunks2 @ (if failure2 = None then texts post else []),
             messages = initial_messages p @ [tool_message results],
             search_performed = True,
             requests = [first_request (initial_messages p),
                         final_request (initial_messages p @ [tool_message results])],
             searches = [q]\<rparr>,
            case failure2 of None \<Rightarrow> failure1 | Some e \<Rightarrow> Some e)"
proof -
  define st1 where "st1 = (initial_conv p)\<lparr>out := out (initial_conv p) @ texts pre\<rparr>"
  have p1: "stream_loop env pre None (initial_conv p) = (st1, None)"
    unfolding st1_def by (rule stream_loop_passed_over[OF assms(2)])
  have s1: "\<not> search_performed st1" "messages st1 = initial_messages p"
    by (simp_all add: st1_def initial_conv_def)
  define st2 where "st2 = st1\<lparr>out := out st1 @ [searching_line q] @ concat (map narration results)
                          @ [final_line] @ texts chunks2,
               messages := messages st1 @ [tool_message results],
               search_performed := True,
               requests := requests st1 @ [final_request (messages st1 @ [tool_message results])],
               searches := searches st1 @ [q]\<rparr>"
  have p2: "on_chunk env c st1 = (st2, failure2)"
    unfolding st2_def
    using on_chunk_calls_search[OF assms(3) s1(1)]
      on_tool_call_ok[OF assms(4,5,6,7) _ assms(9), of st1 failure2] assms(8) s1(2)
    by simp
  have s2: "search_performed st2"
    by (simp add: st2_def)
  have p3: "stream_loop env post failure1 st2 = (st2\<lparr>out := out st2 @ texts post\<rparr>, failure1)"
    by (rule stream_loop_performed[OF s2 assms(10)])
  have "run_conversation env p = stream_loop env (pre @ c # post) failure1 (initial_conv p)"
    using assms(1) by (simp add: run_conversation_def)
  also have "\<dots> = (case failure2 of None \<Rightarrow> stream_loop env post failure1 st2
                     | Some e \<Rightarrow> (st2, Some e))"
    by (simp add: stream_loop_append p1 p2 split: option.splits)
  also have "\<dots> = (case failure2 of None \<Rightarrow> (st2\<lparr>out := out st2 @ texts post\<rparr>, failure1)
                     | Some e \<Rightarrow> (st2, Some e))"
    by (simp only: p3)
  finally show ?thesis
    by (simp add: st2_def st1_def initial_conv_def split: option.splits)
qed

lemma on_tool_call_effects:
  assumes "on_tool_call env f st = (st', r)"
  shows "search_performed st' \<and>
     (searches st' = searches st \<or> (\<exists>q. searches st' = searches st @ [q])) \<and>
     ((messages st' = messages st \<and> requests st' = requests st) \<or>
      (\<exists>rs. messages st' = messages st @ [tool_message rs] \<and>
            requests st' = requests st @ [final_request (messages st @ [tool_message rs])]))"
proof -
  have n: "\<And>rs s. narrate rs s = (a, b) \<Longrightarrow>
     messages a = messages s \<and> search_performed a = search_performed s \<and>
     requests a = requests s \<and> searches a = searches s" for a b
    using narrate_frame by (metis fst_conv)
  have l: "\<And>cs fl s. final_loop cs fl s = (a, b) \<Longrightarrow>
     messages a = messages s \<and> search_performed a = search_performed s \<and>
     requests a = requests s \<and> searches a = searches s" for a b
    using final_loop_frame by (metis fst_conv)
  show ?thesis
    using assms
    by (auto simp add: on_tool_call_def Let_def yield_def
        split: option.splits sum.splits prod.splits dest!: n l)
qed

lemma on_tool_call_reinjects:
  assumes "fn_arguments f = Some a" "json_loads env a = Inr (Dict d)"
    and "q = (case d ''query'' of None \<Rightarrow> PyNone | Some v \<Rightarrow> v)"
    and "search_and_parse env q = Inr results"
  shows "messages (fst (on_tool_call env f st)) = messages st @ [tool_message results] \<and>
         requests (fst (on_tool_call env f st)) =
           requests st @ [final_request (messages st @ [tool_message results])] \<and>
         searches (fst (on_tool_call env f st)) = searches st @ [q] \<and>
         search_performed (fst (on_tool_call env f st))"
proof -
  have n: "\<forall>r\<in>set results. narratable r"
    using search_and_parse_narratable[OF assms(4)] by blast
  show ?thesis
    using assms(1,2,4)
    by (simp add: on_tool_call_def Let_def assms(3)[symmetric] narrate_narratable[OF n]
        final_loop_frame yield_def split: sum.split prod.split)
qed

lemma on_chunk_performed_frame:
  assumes "search_performed st"
  shows "messages (fst (on_chunk env c st)) = messages st \<and>
         requests (fst (on_chunk env c st)) = requests st \<and>
         searches (fst (on_chunk env c st)) = searches st \<and>
         search_performed (fst (on_chunk env c st))"
  using assms by (simp add: on_chunk_def yield_def split: list.split option.split)

lemma stream_loop_performed_frame:
  "search_performed st \<Longrightarrow>
     messages (fst (stream_loop env cs failure st)) = messages st \<and>
     requests (fst (stream_loop env cs failure st)) = requests st \<and>
     searches (fst (stream_loop env cs failure st)) = searches st \<and>
     search_performed (fst (stream_loop env cs failure st))"
proof (induction cs arbitrary: st)
  case Nil
  then show ?case by simp
next
  case (Cons c cs)
  obtain st' r where o: "on_chunk env c st = (st', r)"
    by (cases "on_chunk env c st")
  have f: "messages st' = messages st" "requests st' = requests st"
    "searches st' = searches st" "search_performed st'"
    using on_chunk_performed_frame[OF Cons.prems, of env c] o by simp_all
  show ?case
  proof (cases r)
    case None
    with o f Cons.IH[of st'] show ?thesis by simp
  next
    case (Some e)
    with o f show ?thesis by simp
  qed
qed

lemma search_and_parse_failure:
  assumes "(session_post env q = Inl e \<and>
              m = ''Error during search API request: '' @ message e) \<or>
           (session_post env q = Inr response \<and> status response \<noteq> 200 \<and>
              m = ''Serper API request failed with status code '' @ str_nat (status response))"
  shows "search_and_parse env q = Inr [error_only m]"
  using assms by (auto simp add: search_and_parse_def)

lemma run_reinjects:
  assumes "create env (first_request (initial_messages p)) = Inr (pre @ c # post, failure1)"
    and "\<forall>x\<in>set pre. passed_over x"
    and "calls_search c f"
    and "fn_arguments f = Some a"
    and "json_loads env a = Inr (Dict d)"
    and "q = (case d ''query'' of None \<Rightarrow> PyNone | Some v \<Rightarrow> v)"
    and "search_and_parse env q = Inr results"
  shows "messages (fst (run_conversation env p)) = initial_messages p @ [tool_message results] \<and>
         requests (fst (run_conversation env p)) =
           [first_request (initial_messages p),
            final_request (initial_messages p @ [tool_message results])] \<and>
         searches (fst (run_conversation env p)) = [q]"
proof -
  define st1 where "st1 = (initial_conv p)\<lparr>out := out (initial_conv p) @ texts pre\<rparr>"
  have p1: "stream_loop env pre None (initial_conv p) = (st1, None)"
    unfolding st1_def by (rule stream_loop_passed_over[OF assms(2)])
  have s1: "\<not> search_performed st1" "messages st1 = initial_messages p"
    "requests st1 = [first_request (initial_messages p)]" "searches st1 = []"
    by (simp_all add: st1_def initial_conv_def)
  obtain st2 r where o: "on_chunk env c st1 = (st2, r)"
    by (cases "on_chunk env c st1")
  have "on_tool_call env f st1 = (st2, r)"
    using on_chunk_calls_search[OF assms(3) s1(1), of env] o by simp
  then have s2: "messages st2 = initial_messages p @ [tool_message results]"
    "requests st2 = [first_request (initial_messages p),
            final_request (initial_messages p @ [tool_message results])]"
    "searches st2 = [q]" "search_performed st2"
    using on_tool_call_reinjects[OF assms(4,5,6,7), of st1] s1 by simp_all
  have "run_conversation env p = stream_loop env (pre @ c # post) failure1 (initial_conv p)"
    using assms(1) by (simp add: run_conversation_def)
  also have "\<dots> = (case r of None \<Rightarrow> stream_loop env post failure1 st2
                     | Some e \<Rightarrow> (st2, Some e))"
    by (simp add: stream_loop_append p1 o split: option.splits)
  finally have "run_conversation env p =
      (case r of None \<Rightarrow> stream_loop env post failure1 st2 | Some e \<Rightarrow> (st2, Some e))" .
  then show ?thesis
    using s2 stream_loop_performed_frame[OF s2(4), of env post failure1]
    by (cases r) simp_all
qed

lemma on_chunk_cases:
  "(\<exists>f. calls_search c f \<and> \<not> search_performed st \<and> on_chunk env c st = on_tool_call env f st) \<or>
   (\<exists>more. fst (on_chunk env c st) = st\<lparr>out := out st @ more\<rparr>)"
proof (cases "choices c")
  case Nil
  have "fst (on_chunk env c st) = st\<lparr>out := out st @ []\<rparr>"
    using Nil by (simp add: on_chunk_def)
  then show ?thesis by blast
next
  case (Cons d ds)
  note c = Cons
  show ?thesis
  proof (cases "content d")
    case (Some s)
    have "fst (on_chunk env c st) = st\<lparr>out := out st @ [s]\<rparr>"
      using c Some by (simp add: on_chunk_def yield_def)
    then show ?thesis by blast
  next
    case None
    note n = None
    show ?thesis
    proof (cases "\<exists>tc tcs f. tool_calls d = Some (tc # tcs) \<and> tc_function tc = Some f \<and>
                    fn_name f = Some ''search_and_parse'' \<and> \<not> search_performed st")
      case True
      then obtain tc tcs f where t: "tool_calls d = Some (tc # tcs)" "tc_function tc = Some f"
        "fn_name f = Some ''search_and_parse''" "\<not> search_performed st"
        by blast
      have "calls_search c f"
        using c n t by (simp add: calls_search_def signal_def text_of_def)
      moreover have "on_chunk env c st = on_tool_call env f st"
        using c n t by (simp add: on_chunk_def)
      ultimately show ?thesis
        using t(4) by blast
    next
      case False
      then have "fst (on_chunk env c st) = st\<lparr>out := out st @ []\<rparr>"
        using c n by (auto simp add: on_chunk_def split: option.split list.split)
      then show ?thesis by blast
    qed
  qed
qed

lemma on_chunk_effects:
  "(messages (fst (on_chunk env c st)) = messages st \<and>
    requests (fst (on_chunk env c st)) = requests st \<and>
    searches (fst (on_chunk env c st)) = searches st \<and>
    search_performed (fst (on_chunk env c st)) = search_performed st) \<or>
   (\<not> search_performed st \<and> search_performed (fst (on_chunk env c st)) \<and>
    (\<exists>f. calls_search c f) \<and>
    (searches (fst (on_chunk env c st)) = searches st \<or>
     (\<exists>q. searches (fst (on_chunk env c st)) = searches st @ [q])) \<and>
    ((messages (fst (on_chunk env c st)) = messages st \<and>
      requests (fst (on_chunk env c st)) = requests st) \<or>
     (\<exists>rs. messages (fst (on_chunk env c st)) = messages st @ [tool_message rs] \<and>
           requests (fst (on_chunk env c st)) =
             requests st @ [final_request (messages st @ [tool_message rs])])))"
proof -
  from on_chunk_cases[of c st env] show ?thesis
  proof
    assume "\<exists>f. calls_search c f \<and> \<not> search_performed st \<and>
                on_chunk env c st = on_tool_call env f st"
    then obtain f where f: "calls_search c f" "\<not> search_performed st"
      "on_chunk env c st = on_tool_call env f st"
      by blast
    obtain st' r where o: "on_tool_call env f st = (st', r)"
      by (cases "on_tool_call env f st")
    from on_tool_call_effects[OF o] f o show ?thesis
      by auto
  next
    assume "\<exists>more. fst (on_chunk env c st) = st\<lparr>out := out st @ more\<rparr>"
    then obtain more where "fst (on_chunk env c st) = st\<lparr>out := out st @ more\<rparr>"
      by blast
    then show ?thesis by simp
  qed
qed

lemma on_chunk_conv_ok:
  assumes "conv_ok p st"
  shows "conv_ok p (fst (on_chunk env c st))"
  using assms on_chunk_effects[of env c st]
  unfolding conv_ok_def by (elim disjE conjE exE) (simp_all, auto)

lemma stream_loop_conv_ok:
  "conv_ok p st \<Longrightarrow> conv_ok p (fst (stream_loop env cs failure st))"
proof (induction cs arbitrary: st)
  case Nil
  then show ?case by simp
next
  case (Cons c cs)
  obtain st' r where o: "on_chunk env c st = (st', r)"
    by (cases "on_chunk env c st")
  have k: "conv_ok p st'"
    using on_chunk_conv_ok[OF Cons.prems, of env c] o by simp
  show ?case
  proof (cases r)
    case None
    with o Cons.IH[OF k] show ?thesis by simp
  next
    case (Some e)
    with o k show ?thesis by simp
  qed
qed

lemma initial_conv_ok: "conv_ok p (initial_conv p)"
  by (simp add: conv_ok_def initial_conv_def)

lemma run_conversation_conv_ok: "conv_ok p (fst (run_conversation env p))"
  by (simp add: run_conversation_def initial_conv_ok stream_loop_conv_ok
      split: sum.split prod.split)

lemma run_without_signal:
  assumes "create env (first_request (initial_messages p)) = Inr (chunks, failure)"
    and "\<forall>c\<in>set chunks. no_signal c"
  shows "run_conversation env p = ((initial_conv p)\<lparr>out := texts chunks\<rparr>, failure)"
proof -
  have "\<forall>c\<in>set chunks. passed_over c"
    using assms(2) no_signal_passed_over by blast
  then show ?thesis
    using assms(1) by (simp add: run_conversation_def stream_loop_passed_over initial_conv_def)
qed

lemma on_chunk_prefix: "prefix (messages st) (messages (fst (on_chunk env c st)))"
  using on_chunk_effects[of env c st] by auto

lemma stream_loop_prefix:
  "prefix (messages st) (messages (fst (stream_loop env cs failure st)))"
proof (induction cs arbitrary: st)
  case Nil
  then show ?case by simp
next
  case (Cons c cs)
  obtain st' r where o: "on_chunk env c st = (st', r)"
    by (cases "on_chunk env c st")
  have p: "prefix (messages st) (messages st')"
    using on_chunk_prefix[of st env c] o by simp
  show ?case
  proof (cases r)
    case None
    with o p Cons.IH[of st'] show ?thesis
      by (auto intro: prefix_order.trans)
  next
    case (Some e)
    with o p show ?thesis by simp
  qed
qed

section \<open>Facts of the example world\<close>

lemma ex_text_chunk: "passed_over (text_chunk s)" "no_signal (text_chunk s)"
  "well_formed (text_chunk s)" "text_of (text_chunk s) = [s]"
  by (simp_all add: passed_over_def no_signal_def well_formed_def text_of_def text_chunk_def)

lemma ex_call_chunk:
  "calls_search (call_chunk ''search_and_parse'' ex_arguments) ex_function"
  "well_formed (call_chunk n a)" "text_of (call_chunk n a) = []"
  by (simp_all add: calls_search_def signal_def well_formed_def text_of_def call_chunk_def
      ex_function_def)

lemma ex_create1:
  "create ex_env (first_request (initial_messages ex_prompt)) =
     Inr ([text_chunk ''Let me check.''] @ call_chunk ''search_and_parse'' ex_arguments #
            [text_chunk ''Anything else?''], None)"
  by (simp add: ex_env_def first_request_def ex_stream1_def)

lemma ex_create2:
  "create ex_env (final_request msgs) = Inr ([text_chunk ''It is '', text_chunk ''sunny.''], None)"
  by (simp add: ex_env_def final_request_def ex_stream2_def)

lemma ex_loads: "json_loads ex_env ex_arguments = Inr (Dict [''query'' \<mapsto> ex_query])"
  by (simp add: ex_env_def)

lemma ex_q: "ex_query = (case [''query'' \<mapsto> ex_query] ''query'' of None \<Rightarrow> PyNone | Some v \<Rightarrow> v)"
  by simp

lemma ex_args: "fn_arguments ex_function = Some ex_arguments"
  by (simp add: ex_function_def)

lemma ex_narration:
  "narration (url_content u c) = [source_line u, summary_line c]"
  "narration (url_error u m) = [''Error for '' @ u @ '': '' @ m @ [NL]]"
  "narration (error_only m) = [''Error for unknown URL: '' @ m @ [NL]]"
  by (simp_all add: narration_def url_content_def url_error_def error_only_def
      error_narration_def)

lemma ex_texts:
  "texts [text_chunk ''Let me check.''] = [''Let me check.'']"
  "texts [text_chunk ''Anything else?''] = [''Anything else?'']"
  "texts [text_chunk ''It is '', text_chunk ''sunny.''] = [''It is '', ''sunny.'']"
  by (simp_all add: texts_def ex_text_chunk)

lemma ex_one_page_same:
  "create ex_env_one_page = create ex_env" "json_loads ex_env_one_page = json_loads ex_env"
  by (simp_all add: ex_env_one_page_def)

lemma ex_search_one_page:
  "search_and_parse ex_env_one_page ex_query =
     Inr [url_content ''https://a.example'' (replicate 1000 (CHR ''x''))]"
  by (simp add: search_and_parse_def urls_of_def List.map_filter_simps fetch_one_def
      ex_env_one_page_def ex_env_def ex_get_def ex_long_text_def)

lemma ex_search_down_same:
  "create ex_env_search_down = create ex_env"
  "json_loads ex_env_search_down = json_loads ex_env"
  by (simp_all add: ex_env_search_down_def)

lemma ex_twice_same:
  "json_loads ex_env_twice = json_loads ex_env"
  "session_post ex_env_twice = session_post ex_env"
  "session_get ex_env_twice = session_get ex_env"
  "extract_text ex_env_twice = extract_text ex_env"
  "create ex_env_twice (final_request msgs) = create ex_env (final_request msgs)"
  "create ex_env_twice (first_request msgs) =
     Inr ([] @ call_chunk ''search_and_parse'' ex_arguments #
            [call_chunk ''search_and_parse'' ex_arguments], None)"
  by (simp_all add: ex_env_twice_def ex_env_def final_request_def first_request_def)

lemma ex_call_texts: "texts [] = []" "texts [call_chunk n a] = []"
  by (simp_all add: texts_def ex_call_chunk)

lemma ex_twice_run:
  "run_conversation ex_env_twice ex_prompt =
     (\<lparr>out = [searching_line ex_query] @ concat (map narration ex_results) @ [final_line] @
              [''It is '', ''sunny.''],
       messages = initial_messages ex_prompt @ [tool_message ex_results],
       search_performed = True,
       requests = [first_request (initial_messages ex_prompt),
                   final_request (initial_messages ex_prompt @ [tool_message ex_results])],
       searches = [ex_query]\<rparr>, None)"
proof -
  have s: "search_and_parse ex_env_twice ex_query = Inr ex_results"
    using search_and_parse_cong[OF ex_twice_same(2,3,4)] ex_search by simp
  have l: "json_loads ex_env_twice ex_arguments = Inr (Dict [''query'' \<mapsto> ex_query])"
    by (simp add: ex_twice_same ex_loads)
  have c2: "create ex_env_twice (final_request (initial_messages ex_prompt @ [tool_message ex_results])) =
     Inr ([text_chunk ''It is '', text_chunk ''sunny.''], None)"
    by (simp add: ex_twice_same ex_create2)
  have w: "\<forall>x\<in>set [text_chunk ''It is '', text_chunk ''sunny.'']. well_formed x"
    "\<forall>x\<in>set [call_chunk ''search_and_parse'' ex_arguments]. well_formed x"
    by (simp_all add: ex_text_chunk ex_call_chunk)
  have p: "\<forall>x\<in>set []. passed_over x"
    by simp
  show ?thesis
    using run_tool_path[OF ex_twice_same(6) p ex_call_chunk(1) ex_args l ex_q s c2 w]
    by (simp add: ex_texts ex_call_texts)
qed

lemma ex_two_calls_same:
  "json_loads ex_env_two_calls = json_loads ex_env"
  "session_post ex_env_two_calls = session_post ex_env"
  "session_get ex_env_two_calls = session_get ex_env"
  "extract_text ex_env_two_calls = extract_text ex_env"
  "create ex_env_two_calls (final_request msgs) = create ex_env (final_request msgs)"
  "create ex_env_two_calls (first_request msgs) =
     Inr ([call_chunk ''get_weather'' ex_arguments] @
            call_chunk ''search_and_parse'' ex_arguments # [], None)"
  by (simp_all add: ex_env_two_calls_def ex_two_calls_def ex_env_def final_request_def
      first_request_def)

section \<open>The single-tool-use policy\<close>

text \<open>
  Claim C1, as amended. Whatever the model streams and the other collaborators do, one
  run of \<^verbatim>\<open>run_conversation\<close> calls \<^verbatim>\<open>search_and_parse\<close> at most once and makes at most two
  completion requests. A chunk makes the loop call the search only when no search has
  been performed yet and the chunk is a signal with no text content whose first tool call
  names \<^verbatim>\<open>search_and_parse\<close>; once the flag is set, whatever chunks follow, no further search
  is made and no further stream is opened.
\<close>

theorem single_tool_use:
  "length (searches (fst (run_conversation env user_prompt))) \<le> 1 \<and>
   length (requests (fst (run_conversation env user_prompt))) \<le> 2 \<and>
   (searches (fst (on_chunk env c st)) \<noteq> searches st \<longrightarrow>
      \<not> search_performed st \<and> (\<exists>f. calls_search c f)) \<and>
   (search_performed st \<longrightarrow>
      searches (fst (stream_loop env cs failure st)) = searches st \<and>
      requests (fst (stream_loop env cs failure st)) = requests st)"
proof -
  have k: "conv_ok user_prompt (fst (run_conversation env user_prompt))"
    by (rule run_conversation_conv_ok)
  have 1: "length (searches (fst (run_conversation env user_prompt))) \<le> 1"
    using k unfolding conv_ok_def by auto
  have 2: "length (requests (fst (run_conversation env user_prompt))) \<le> 2"
    using k unfolding conv_ok_def by auto
  have 3: "searches (fst (on_chunk env c st)) \<noteq> searches st \<longrightarrow>
      \<not> search_performed st \<and> (\<exists>f. calls_search c f)"
    using on_chunk_effects[of env c st] by blast
  have 4: "search_performed st \<longrightarrow>
      searches (fst (stream_loop env cs failure st)) = searches st \<and>
      requests (fst (stream_loop env cs failure st)) = requests st"
    using stream_loop_performed_frame[of st env cs failure] by blast
  from 1 2 3 4 show ?thesis
    by (intro conjI)
qed

theorem single_tool_use_witness:
  "create ex_env_twice (first_request (initial_messages ex_prompt)) =
     Inr ([call_chunk ''search_and_parse'' ex_arguments,
           call_chunk ''search_and_parse'' ex_arguments], None) \<and>
   searches (fst (run_conversation ex_env_twice ex_prompt)) = [ex_query] \<and>
   length (searches (fst (run_conversation ex_env_twice ex_prompt))) \<le> 1 \<and>
   length (requests (fst (run_conversation ex_env_twice ex_prompt))) \<le> 2 \<and>
   searches (fst (on_chunk ex_env_twice (call_chunk ''search_and_parse'' ex_arguments)
                    (initial_conv ex_prompt))) \<noteq> searches (initial_conv ex_prompt) \<and>
   \<not> search_performed (initial_conv ex_prompt) \<and>
   (\<exists>f. calls_search (call_chunk ''search_and_parse'' ex_arguments) f) \<and>
   search_performed (fst (run_conversation ex_env_twice ex_prompt)) \<and>
   searches (fst (stream_loop ex_env_twice [call_chunk ''search_and_parse'' ex_arguments] None
                    (fst (run_conversation ex_env_twice ex_prompt)))) = [ex_query]"
proof -
  note t = single_tool_use[of ex_env_twice ex_prompt
      "call_chunk ''search_and_parse'' ex_arguments" "initial_conv ex_prompt"]
  note t' = single_tool_use[of ex_env_twice ex_prompt _
      "fst (run_conversation ex_env_twice ex_prompt)"
      "[call_chunk ''search_and_parse'' ex_arguments]" None]
  have c: "create ex_env_twice (first_request (initial_messages ex_prompt)) =
     Inr ([call_chunk ''search_and_parse'' ex_arguments,
           call_chunk ''search_and_parse'' ex_arguments], None)"
    using ex_twice_same(6) by simp
  have s: "searches (fst (run_conversation ex_env_twice ex_prompt)) = [ex_query]"
    "search_performed (fst (run_conversation ex_env_twice ex_prompt))"
    by (simp_all add: ex_twice_run)
  have n: "\<not> search_performed (initial_conv ex_prompt)" "searches (initial_conv ex_prompt) = []"
    by (simp_all add: initial_conv_def)
  have l: "json_loads ex_env_twice ex_arguments = Inr (Dict [''query'' \<mapsto> ex_query])"
    by (simp add: ex_twice_same ex_loads)
  have q: "search_and_parse ex_env_twice ex_query = Inr ex_results"
    using search_and_parse_cong[OF ex_twice_same(2,3,4)] ex_search by simp
  have o: "searches (fst (on_chunk ex_env_twice (call_chunk ''search_and_parse'' ex_arguments)
                    (initial_conv ex_prompt))) \<noteq> searches (initial_conv ex_prompt)"
    using on_chunk_calls_search[OF ex_call_chunk(1) n(1), of ex_env_twice]
      on_tool_call_reinjects[OF ex_args l ex_q q, of "initial_conv ex_prompt"] n(2)
    by simp
  from t o have e: "\<exists>f. calls_search (call_chunk ''search_and_parse'' ex_arguments) f"
    by blast
  from t' s have a: "searches (fst (stream_loop ex_env_twice
        [call_chunk ''search_and_parse'' ex_arguments] None
        (fst (run_conversation ex_env_twice ex_prompt)))) = [ex_query]"
    by simp
  show ?thesis
    by (intro conjI c s n(1) o e a t[THEN conjunct1] t[THEN conjunct2, THEN conjunct1])
qed

text \<open>
  The claim as stated, that only the first signal is honored and every later one is
  ignored, fails: a first signal that names another function is passed over without
  setting the flag, and the signal after it is honored.
\<close>

theorem first_signal_counterexample:
  "create ex_env_two_calls (first_request (initial_messages ex_prompt)) =
     Inr ([call_chunk ''get_weather'' ex_arguments,
           call_chunk ''search_and_parse'' ex_arguments], None) \<and>
   signal (call_chunk ''get_weather'' ex_arguments)
     \<lparr>fn_name = Some ''get_weather'', fn_arguments = Some ex_arguments\<rparr> \<and>
   signal (call_chunk ''search_and_parse'' ex_arguments) ex_function \<and>
   on_chunk ex_env_two_calls (call_chunk ''get_weather'' ex_arguments) (initial_conv ex_prompt) =
     (initial_conv ex_prompt, None) \<and>
   searches (fst (on_chunk ex_env_two_calls (call_chunk ''search_and_parse'' ex_arguments)
                    (initial_conv ex_prompt))) = [ex_query] \<and>
   searches (fst (run_conversation ex_env_two_calls ex_prompt)) = [ex_query] \<and>
   out (fst (run_conversation ex_env_two_calls ex_prompt)) =
     [searching_line ex_query] @ concat (map narration ex_results) @ [final_line] @
     [''It is '', ''sunny.'']"
proof -
  have c: "create ex_env_two_calls (first_request (initial_messages ex_prompt)) =
     Inr ([call_chunk ''get_weather'' ex_arguments,
           call_chunk ''search_and_parse'' ex_arguments], None)"
    using ex_two_calls_same(6) by simp
  have g: "signal (call_chunk ''get_weather'' ex_arguments)
     \<lparr>fn_name = Some ''get_weather'', fn_arguments = Some ex_arguments\<rparr>"
    by (simp add: signal_def call_chunk_def)
  have h: "signal (call_chunk ''search_and_parse'' ex_arguments) ex_function"
    using ex_call_chunk(1) by (simp add: calls_search_def)
  have po: "passed_over (call_chunk ''get_weather'' ex_arguments)"
    by (simp add: passed_over_def call_chunk_def)
  have o1: "on_chunk ex_env_two_calls (call_chunk ''get_weather'' ex_arguments)
              (initial_conv ex_prompt) = (initial_conv ex_prompt, None)"
    by (simp add: on_chunk_passed_over[OF po] ex_call_chunk)
  have n: "\<not> search_performed (initial_conv ex_prompt)" "searches (initial_conv ex_prompt) = []"
    by (simp_all add: initial_conv_def)
  have l: "json_loads ex_env_two_calls ex_arguments = Inr (Dict [''query'' \<mapsto> ex_query])"
    by (simp add: ex_two_calls_same ex_loads)
  have q: "search_and_parse ex_env_two_calls ex_query = Inr ex_results"
    using search_and_parse_cong[OF ex_two_calls_same(2,3,4)] ex_search by simp
  have o2: "searches (fst (on_chunk ex_env_two_calls (call_chunk ''search_and_parse'' ex_arguments)
                    (initial_conv ex_prompt))) = [ex_query]"
    using on_chunk_calls_search[OF ex_call_chunk(1) n(1), of ex_env_two_calls]
      on_tool_call_reinjects[OF ex_args l ex_q q, of "initial_conv ex_prompt"] n(2)
    by simp
  have c2: "create ex_env_two_calls
              (final_request (initial_messages ex_prompt @ [tool_message ex_results])) =
     Inr ([text_chunk ''It is '', text_chunk ''sunny.''], None)"
    by (simp add: ex_two_calls_same ex_create2)
  have w: "\<forall>x\<in>set [text_chunk ''It is '', text_chunk ''sunny.'']. well_formed x"
    "\<forall>x\<in>set []. well_formed x"
    by (simp_all add: ex_text_chunk)
  have p: "\<forall>x\<in>set [call_chunk ''get_weather'' ex_arguments]. passed_over x"
    using po by simp
  note r = run_tool_path[OF ex_two_calls_same(6) p ex_call_chunk(1) ex_args l ex_q q c2 w]
  have s: "searches (fst (run_conversation ex_env_two_calls ex_prompt)) = [ex_query]"
    by (simp add: r)
  have u: "out (fst (run_conversation ex_env_two_calls ex_prompt)) =
     [searching_line ex_query] @ concat (map narration ex_results) @ [final_line] @
     [''It is '', ''sunny.'']"
    by (simp add: r ex_texts ex_call_texts)
  show ?thesis
    by (intro conjI c g h o1 o2 s u)
qed

section \<open>The fetches run one after another\<close>

text \<open>
  Claim C2, as amended. After the search call has returned the URLs, the fetch and
  extraction of each URL run one after another, in list order, in a single loop: the
  iteration for a URL starts when all the iterations before it have ended, so the clock
  at its end is the start time plus the times of all fetches so far, and the loop
  ends after the sum of all the fetch times. The results are those of the untimed loop.
\<close>

theorem sequential_fetches:
  "fst (fetch_loop_timed env fetch_time urls (results, now)) = fetch_loop env urls results \<and>
   snd (fetch_loop_timed env fetch_time urls (results, now)) =
     now + sum_list (map fetch_time urls) \<and>
   fetch_loop_timed env fetch_time (before @ url # rest) (results, now) =
     fetch_loop_timed env fetch_time rest
       (fetch_loop env before results @ [fetch_one env url],
        now + sum_list (map fetch_time before) + fetch_time url)"
proof -
  have "fetch_loop_timed env fetch_time before (results, now) =
          (fetch_loop env before results, now + sum_list (map fetch_time before))"
    using fetch_loop_timed_results[of env fetch_time before results now]
      fetch_loop_timed_clock[of env fetch_time before results now]
    by (cases "fetch_loop_timed env fetch_time before (results, now)") simp
  then have "fetch_loop_timed env fetch_time (before @ url # rest) (results, now) =
     fetch_loop_timed env fetch_time rest
       (fetch_loop env before results @ [fetch_one env url],
        now + sum_list (map fetch_time before) + fetch_time url)"
    by (simp add: fetch_loop_timed_append)
  then show ?thesis
    by (simp add: fetch_loop_timed_results fetch_loop_timed_clock)
qed

text \<open>
  The claim as stated, a fan-out that ends within the slowest fetch plus a fixed
  overhead, fails: five fetches of 10 time units each take 50, and no overhead bounds
  the loop's time by the slowest fetch for all lists of URLs.
\<close>

theorem concurrent_fan_out_counterexample:
  "snd (fetch_loop_timed ex_env (\<lambda>url. 10) ex_urls ([], 0)) = 50 \<and>
   \<not> (\<exists>overhead. \<forall>fetch_time urls slowest.
         (\<forall>url\<in>set urls. fetch_time url \<le> slowest) \<longrightarrow>
         snd (fetch_loop_timed ex_env fetch_time urls ([], 0)) \<le> slowest + overhead)"
proof -
  have 1: "snd (fetch_loop_timed ex_env (\<lambda>url. 10) ex_urls ([], 0)) = 50"
    by (simp add: fetch_loop_timed_clock ex_urls_def)
  have 2: "\<not> (\<exists>overhead. \<forall>fetch_time urls slowest.
         (\<forall>url\<in>set urls. fetch_time url \<le> slowest) \<longrightarrow>
         snd (fetch_loop_timed ex_env fetch_time urls ([], 0)) \<le> slowest + overhead)"
  proof
    assume "\<exists>overhead. \<forall>fetch_time urls slowest.
         (\<forall>url\<in>set urls. fetch_time url \<le> slowest) \<longrightarrow>
         snd (fetch_loop_timed ex_env fetch_time urls ([], 0)) \<le> slowest + overhead"
    then obtain overhead where b: "\<And>fetch_time urls slowest.
         (\<forall>url\<in>set urls. fetch_time url \<le> slowest) \<Longrightarrow>
         snd (fetch_loop_timed ex_env fetch_time urls ([], 0)) \<le> slowest + overhead"
      by blast
    have "snd (fetch_loop_timed ex_env (\<lambda>url. Suc overhead)
                 [''https://a.example'', ''https://b.example''] ([], 0))
            \<le> Suc overhead + overhead"
      by (rule b) simp
    then show False
      by (simp add: fetch_loop_timed_clock)
  qed
  from 1 2 show ?thesis
    by (intro conjI)
qed

section \<open>The output of the tool path\<close>

text \<open>
  Claim C3, as amended. Take a conversation whose first stream is some chunks the loop
  passes over, then a chunk that calls \<^verbatim>\<open>search_and_parse\<close> with arguments that parse to a
  dict, then further chunks, and in which the search returns, the second stream opens and
  all chunks have a choice. With \<open>q\<close> the value of the key \<^verbatim>\<open>query\<close>, the output is: the
  texts before the call; the line announcing the search for \<open>q\<close>; for each entry of the
  search results in order either one error line (naming the URL, or \<^verbatim>\<open>unknown URL\<close>) or
  two fragments, a source line naming the URL and a summary line with the 200-character
  preview; the fixed line announcing the final response; the texts of the second stream
  in order; and, when the second stream ends without an exception, the texts of the rest
  of the first stream.
\<close>

theorem tool_path_output:
  assumes "create env (first_request (initial_messages user_prompt)) =
             Inr (pre @ c # post, failure1)"
    and "\<forall>x\<in>set pre. passed_over x"
    and "calls_search c f"
    and "fn_arguments f = Some a"
    and "json_loads env a = Inr (Dict d)"
    and "q = (case d ''query'' of None \<Rightarrow> PyNone | Some v \<Rightarrow> v)"
    and "search_and_parse env q = Inr results"
    and "create env (final_request (initial_messages user_prompt @ [tool_message results])) =
           Inr (chunks2, failure2)"
    and "\<forall>x\<in>set chunks2. well_formed x"
    and "\<forall>x\<in>set post. well_formed x"
  shows "out (fst (run_conversation env user_prompt)) =
           texts pre @
           [[NL] @ ''Searching the web for: '' @ py_str q @ [NL]] @
           concat (map narration results) @
           [[NL] @ ''Final response incorporating search results:'' @ [NL]] @
           texts chunks2 @
           (if failure2 = None then texts post else []) \<and>
         (\<forall>r\<in>set results.
            (\<exists>err. r_error r = Some err \<and>
               narration r =
                 [''Error for '' @ (case r_url r of None \<Rightarrow> ''unknown URL'' | Some u \<Rightarrow> u) @
                  '': '' @ err @ [NL]]) \<or>
            (\<exists>u t. r_error r = None \<and> r_url r = Some u \<and> r_content r = Some t \<and>
               narration r =
                 [''Found relevant information from: '' @ u @ [NL],
                  ''Summary: '' @ take 200 t @ ''...'' @ [NL, NL]]))"
proof -
  have o: "out (fst (run_conversation env user_prompt)) =
           texts pre @
           [[NL] @ ''Searching the web for: '' @ py_str q @ [NL]] @
           concat (map narration results) @
           [[NL] @ ''Final response incorporating search results:'' @ [NL]] @
           texts chunks2 @
           (if failure2 = None then texts post else [])"
    by (simp add: run_tool_path[OF assms] searching_line_def final_line_def)
  have n: "(\<exists>err. r_error r = Some err \<and>
               narration r =
                 [''Error for '' @ (case r_url r of None \<Rightarrow> ''unknown URL'' | Some u \<Rightarrow> u) @
                  '': '' @ err @ [NL]]) \<or>
            (\<exists>u t. r_error r = None \<and> r_url r = Some u \<and> r_content r = Some t \<and>
               narration r =
                 [''Found relevant information from: '' @ u @ [NL],
                  ''Summary: '' @ take 200 t @ ''...'' @ [NL, NL]])"
    if "r \<in> set results" for r
    using search_and_parse_narratable[OF assms(7) that]
    by (auto simp add: narratable_def narration_def error_narration_def source_line_def
        summary_line_def)
  from o n show ?thesis
    by blast
qed

theorem tool_path_output_witness:
  "create ex_env (first_request (initial_messages ex_prompt)) =
     Inr ([text_chunk ''Let me check.''] @ call_chunk ''search_and_parse'' ex_arguments #
            [text_chunk ''Anything else?''], None) \<and>
   list_all passed_over [text_chunk ''Let me check.''] \<and>
   calls_search (call_chunk ''search_and_parse'' ex_arguments) ex_function \<and>
   fn_arguments ex_function = Some ex_arguments \<and>
   json_loads ex_env ex_arguments = Inr (Dict [''query'' \<mapsto> ex_query]) \<and>
   search_and_parse ex_env ex_query = Inr ex_results \<and>
   create ex_env (final_request (initial_messages ex_prompt @ [tool_message ex_results])) =
     Inr ([text_chunk ''It is '', text_chunk ''sunny.''], None) \<and>
   list_all well_formed [text_chunk ''It is '', text_chunk ''sunny.''] \<and>
   list_all well_formed [text_chunk ''Anything else?''] \<and>
   out (fst (run_conversation ex_env ex_prompt)) =
     [''Let me check.'',
      [NL] @ ''Searching the web for: weather in Paris'' @ [NL],
      ''Found relevant information from: https://a.example'' @ [NL],
      ''Summary: '' @ replicate 200 (CHR ''x'') @ ''...'' @ [NL, NL],
      ''Error for https://b.example: Request timed out'' @ [NL],
      ''Error for https://c.example: Failed to retrieve content: HTTP 404'' @ [NL],
      ''Error for https://d.example: No main content extracted'' @ [NL],
      ''Error for https://e.example: Client error: Cannot connect to host'' @ [NL],
      [NL] @ ''Final response incorporating search results:'' @ [NL],
      ''It is '', ''sunny.'', ''Anything else?'']"
proof -
  note h1 = ex_create1
  have h2: "\<forall>x\<in>set [text_chunk ''Let me check.'']. passed_over x"
    by (simp add: ex_text_chunk)
  note h3 = ex_call_chunk(1)
  note h4 = ex_args
  note h5 = ex_loads
  note h6 = ex_q
  note h7 = ex_search
  note h8 = ex_create2[of "initial_messages ex_prompt @ [tool_message ex_results]"]
  have h9: "\<forall>x\<in>set [text_chunk ''It is '', text_chunk ''sunny.'']. well_formed x"
    by (simp add: ex_text_chunk)
  have h10: "\<forall>x\<in>set [text_chunk ''Anything else?'']. well_formed x"
    by (simp add: ex_text_chunk)
  have o: "out (fst (run_conversation ex_env ex_prompt)) =
     [''Let me check.'',
      [NL] @ ''Searching the web for: weather in Paris'' @ [NL],
      ''Found relevant information from: https://a.example'' @ [NL],
      ''Summary: '' @ replicate 200 (CHR ''x'') @ ''...'' @ [NL, NL],
      ''Error for https://b.example: Request timed out'' @ [NL],
      ''Error for https://c.example: Failed to retrieve content: HTTP 404'' @ [NL],
      ''Error for https://d.example: No main content extracted'' @ [NL],
      ''Error for https://e.example: Client error: Cannot connect to host'' @ [NL],
      [NL] @ ''Final response incorporating search results:'' @ [NL],
      ''It is '', ''sunny.'', ''Anything else?'']"
    using tool_path_output[OF h1 h2 h3 h4 h5 h6 h7 h8 h9 h10, THEN conjunct1]
    by (simp add: ex_texts ex_results_def ex_narration source_line_def summary_line_def
        ex_query_def)
  have l: "list_all passed_over [text_chunk ''Let me check.'']"
    "list_all well_formed [text_chunk ''It is '', text_chunk ''sunny.'']"
    "list_all well_formed [text_chunk ''Anything else?'']"
    by (simp_all add: ex_text_chunk)
  show ?thesis
    by (intro conjI h1 l h3 h4 h5 h7 h8 o)
qed

text \<open>
  The claim as stated, one narration fragment per entry, fails: a search that returns one
  page with content puts two fragments between the search line and the final line.
\<close>

theorem one_fragment_per_result_counterexample:
  "search_and_parse ex_env_one_page ex_query =
     Inr [url_content ''https://a.example'' (replicate 1000 (CHR ''x''))] \<and>
   out (fst (run_conversation ex_env_one_page ex_prompt)) =
     [''Let me check.'',
      [NL] @ ''Searching the web for: weather in Paris'' @ [NL],
      ''Found relevant information from: https://a.example'' @ [NL],
      ''Summary: '' @ replicate 200 (CHR ''x'') @ ''...'' @ [NL, NL],
      [NL] @ ''Final response incorporating search results:'' @ [NL],
      ''It is '', ''sunny.'', ''Anything else?''] \<and>
   \<not> (\<exists>narrations.
         length narrations = length [url_content ''https://a.example'' (replicate 1000 (CHR ''x''))] \<and>
         out (fst (run_conversation ex_env_one_page ex_prompt)) =
           [''Let me check.'', [NL] @ ''Searching the web for: weather in Paris'' @ [NL]] @
           narrations @
           [[NL] @ ''Final response incorporating search results:'' @ [NL],
            ''It is '', ''sunny.'', ''Anything else?''])"
proof -
  have h2: "\<forall>x\<in>set [text_chunk ''Let me check.'']. passed_over x"
    by (simp add: ex_text_chunk)
  have h9: "\<forall>x\<in>set [text_chunk ''It is '', text_chunk ''sunny.'']. well_formed x"
    by (simp add: ex_text_chunk)
  have h10: "\<forall>x\<in>set [text_chunk ''Anything else?'']. well_formed x"
    by (simp add: ex_text_chunk)
  have o: "out (fst (run_conversation ex_env_one_page ex_prompt)) =
     [''Let me check.'',
      [NL] @ ''Searching the web for: weather in Paris'' @ [NL],
      ''Found relevant information from: https://a.example'' @ [NL],
      ''Summary: '' @ replicate 200 (CHR ''x'') @ ''...'' @ [NL, NL],
      [NL] @ ''Final response incorporating search results:'' @ [NL],
      ''It is '', ''sunny.'', ''Anything else?'']"
    using run_tool_path[of ex_env_one_page ex_prompt, unfolded ex_one_page_same,
        OF ex_create1 h2 ex_call_chunk(1) ex_args ex_loads ex_q, unfolded ex_one_page_same,
        OF ex_search_one_page ex_create2 h9 h10]
    by (simp add: ex_texts ex_narration source_line_def summary_line_def searching_line_def
        final_line_def ex_query_def)
  have n: "\<not> (\<exists>narrations.
         length narrations = length [url_content ''https://a.example'' (replicate 1000 (CHR ''x''))] \<and>
         out (fst (run_conversation ex_env_one_page ex_prompt)) =
           [''Let me check.'', [NL] @ ''Searching the web for: weather in Paris'' @ [NL]] @
           narrations @
           [[NL] @ ''Final response incorporating search results:'' @ [NL],
            ''It is '', ''sunny.'', ''Anything else?''])"
    unfolding o by (auto simp add: length_Suc_conv)
  from ex_search_one_page o n show ?thesis
    by (intro conjI)
qed

section \<open>The path without a tool call\<close>

text \<open>
  Claim C4. When the first stream yields only chunks whose delta carries no tool call, the
  fragments \<^verbatim>\<open>run_conversation\<close> yields are exactly the texts of those chunks, in arrival
  order; the only completion request made is the first one, so the second stream is never
  opened, and no search is made. The run ends as the stream ends, and when the stream ends
  without an exception the adapter's output is those texts too.
\<close>

theorem no_tool_path:
  assumes "create env (first_request (initial_messages user_prompt)) = Inr (chunks, failure)"
    and "\<forall>c\<in>set chunks. no_signal c"
  shows "out (fst (run_conversation env user_prompt)) = texts chunks \<and>
         requests (fst (run_conversation env user_prompt)) =
           [first_request (initial_messages user_prompt)] \<and>
         searches (fst (run_conversation env user_prompt)) = [] \<and>
         snd (run_conversation env user_prompt) = failure \<and>
         (failure = None \<longrightarrow> generate_stream env user_prompt = (texts chunks, None))"
proof -
  have "\<forall>c\<in>set chunks. passed_over c"
    using assms(2) no_signal_passed_over by blast
  then have r: "run_conversation env user_prompt =
      ((initial_conv user_prompt)\<lparr>out := out (initial_conv user_prompt) @ texts chunks\<rparr>, failure)"
    using assms(1) by (simp add: run_conversation_def stream_loop_passed_over)
  show ?thesis
    by (simp add: r generate_stream_def initial_conv_def)
qed

theorem no_tool_path_witness:
  "create ex_env_plain (first_request (initial_messages ''capital of France'')) =
     Inr (ex_plain_chunks, None) \<and>
   list_all no_signal ex_plain_chunks \<and>
   out (fst (run_conversation ex_env_plain ''capital of France'')) =
     [''Paris is the capital '', ''of France.''] \<and>
   requests (fst (run_conversation ex_env_plain ''capital of France'')) =
     [first_request (initial_messages ''capital of France'')] \<and>
   generate_stream ex_env_plain ''capital of France'' =
     ([''Paris is the capital '', ''of France.''], None)"
proof -
  have h1: "create ex_env_plain (first_request (initial_messages ''capital of France'')) =
     Inr (ex_plain_chunks, None)"
    by (simp add: ex_env_plain_def)
  have h2: "\<forall>c\<in>set ex_plain_chunks. no_signal c"
    by (simp add: ex_plain_chunks_def ex_text_chunk)
  have t: "texts ex_plain_chunks = [''Paris is the capital '', ''of France.'']"
    by (simp add: texts_def ex_plain_chunks_def ex_text_chunk)
  have h2': "list_all no_signal ex_plain_chunks"
    using h2 by (simp add: list_all_iff)
  show ?thesis
    using no_tool_path[OF h1 h2] h1 h2' t by simp
qed

section \<open>Per-URL containment\<close>

text \<open>
  Claim C5. When the search call answers 200 with a JSON object, the URLs are the links of
  its organic results, in order, and \<^verbatim>\<open>search_and_parse\<close> returns one entry per URL, in
  that order. Each entry is what the loop body makes of its own URL alone, names that URL,
  and holds either a content or an error, never both and never neither. A timeout, a
  client (transport) error, any other exception, a status other than 200 and an empty
  extraction each give their own error text, and the five texts are pairwise different;
  a non-empty extraction gives the content.
\<close>

theorem per_url_containment:
  assumes "session_post env query = Inr response"
    and "status response = 200"
    and "json response = Inr (Object organic)"
    and "urls = List.map_filter link (case organic of None \<Rightarrow> [] | Some rs \<Rightarrow> rs)"
  shows "(\<exists>results. search_and_parse env query = Inr results \<and>
            length results = length urls \<and>
            (\<forall>i<length urls.
               results ! i = fetch_one env (urls ! i) \<and>
               r_url (results ! i) = Some (urls ! i) \<and>
               (r_content (results ! i) = None) \<noteq> (r_error (results ! i) = None))) \<and>
         (session_get env u = Inl e \<longrightarrow> is_timeout e \<longrightarrow>
            fetch_one env u = url_error u ''Request timed out'') \<and>
         (session_get env u = Inl e \<longrightarrow> \<not> is_timeout e \<longrightarrow> is_client_error e \<longrightarrow>
            fetch_one env u = url_error u (''Client error: '' @ message e)) \<and>
         (session_get env u = Inl e \<longrightarrow> \<not> is_timeout e \<longrightarrow> \<not> is_client_error e \<longrightarrow>
            fetch_one env u = url_error u (''Unexpected error: '' @ message e)) \<and>
         (session_get env u = Inr page \<longrightarrow> page_status page \<noteq> 200 \<longrightarrow>
            fetch_one env u =
              url_error u (''Failed to retrieve content: HTTP '' @ str_nat (page_status page))) \<and>
         (session_get env u = Inr page \<longrightarrow> page_status page = 200 \<longrightarrow>
          page_text page = Inr html \<longrightarrow>
          (extract_text env html = Inr None \<or> extract_text env html = Inr (Some [])) \<longrightarrow>
            fetch_one env u = url_error u ''No main content extracted'') \<and>
         (session_get env u = Inr page \<longrightarrow> page_status page = 200 \<longrightarrow>
          page_text page = Inr html \<longrightarrow> extract_text env html = Inr (Some t) \<longrightarrow> t \<noteq> [] \<longrightarrow>
            fetch_one env u = url_content u (take 1000 t)) \<and>
         distinct [''Request timed out'', ''Client error: '' @ m1, ''Unexpected error: '' @ m2,
                   ''Failed to retrieve content: HTTP '' @ m3, ''No main content extracted'']"
proof -
  have s: "search_and_parse env query = Inr (map (fetch_one env) urls)"
    using search_and_parse_ok[OF assms(1-3)] assms(4) by simp
  have 1: "\<exists>results. search_and_parse env query = Inr results \<and>
            length results = length urls \<and>
            (\<forall>i<length urls.
               results ! i = fetch_one env (urls ! i) \<and>
               r_url (results ! i) = Some (urls ! i) \<and>
               (r_content (results ! i) = None) \<noteq> (r_error (results ! i) = None))"
    using s fetch_one_one_of by (simp add: fetch_one_url)
  have 2: "session_get env u = Inl e \<longrightarrow> is_timeout e \<longrightarrow>
            fetch_one env u = url_error u ''Request timed out''"
    by (simp add: fetch_one_raised on_fetch_error_def)
  have 3: "session_get env u = Inl e \<longrightarrow> \<not> is_timeout e \<longrightarrow> is_client_error e \<longrightarrow>
            fetch_one env u = url_error u (''Client error: '' @ message e)"
    by (simp add: fetch_one_raised on_fetch_error_def)
  have 4: "session_get env u = Inl e \<longrightarrow> \<not> is_timeout e \<longrightarrow> \<not> is_client_error e \<longrightarrow>
            fetch_one env u = url_error u (''Unexpected error: '' @ message e)"
    by (simp add: fetch_one_raised on_fetch_error_def)
  have 5: "session_get env u = Inr page \<longrightarrow> page_status page \<noteq> 200 \<longrightarrow>
            fetch_one env u =
              url_error u (''Failed to retrieve content: HTTP '' @ str_nat (page_status page))"
    by (simp add: fetch_one_status)
  have 6: "session_get env u = Inr page \<longrightarrow> page_status page = 200 \<longrightarrow>
          page_text page = Inr html \<longrightarrow>
          (extract_text env html = Inr None \<or> extract_text env html = Inr (Some [])) \<longrightarrow>
            fetch_one env u = url_error u ''No main content extracted''"
    by (auto simp add: fetch_one_extracted)
  have 7: "session_get env u = Inr page \<longrightarrow> page_status page = 200 \<longrightarrow>
          page_text page = Inr html \<longrightarrow> extract_text env html = Inr (Some t) \<longrightarrow> t \<noteq> [] \<longrightarrow>
            fetch_one env u = url_content u (take 1000 t)"
    by (auto simp add: fetch_one_extracted)
  have 8: "distinct [''Request timed out'', ''Client error: '' @ m1, ''Unexpected error: '' @ m2,
                   ''Failed to retrieve content: HTTP '' @ m3, ''No main content extracted'']"
    by simp
  from 1 2 3 4 5 6 7 8 show ?thesis
    by (intro conjI)
qed


theorem per_url_containment_witness:
  "session_post ex_env ex_query = Inr ex_search_response \<and>
   status ex_search_response = 200 \<and>
   json ex_search_response = Inr (Object (Some ex_organic)) \<and>
   ex_urls = List.map_filter link (case Some ex_organic of None \<Rightarrow> [] | Some rs \<Rightarrow> rs) \<and>
   (\<exists>results. search_and_parse ex_env ex_query = Inr results \<and> length results = 5 \<and>
      results ! 0 = url_content ''https://a.example'' (replicate 1000 (CHR ''x'')) \<and>
      results ! 1 = url_error ''https://b.example'' ''Request timed out'' \<and>
      results ! 2 = url_error ''https://c.example'' ''Failed to retrieve content: HTTP 404'' \<and>
      results ! 3 = url_error ''https://d.example'' ''No main content extracted'' \<and>
      results ! 4 = url_error ''https://e.example'' ''Client error: Cannot connect to host'')"
proof -
  have h1: "session_post ex_env ex_query = Inr ex_search_response"
    by (simp add: ex_env_def)
  have h2: "status ex_search_response = 200"
    by (simp add: ex_search_response_def)
  have h3: "json ex_search_response = Inr (Object (Some ex_organic))"
    by (simp add: ex_search_response_def)
  note h4 = ex_urls
  note t = per_url_containment[OF h1 h2 h3 h4]
  have g: "session_get ex_env = ex_get"
    "extract_text ex_env ''<p>Paris</p>'' = Inr (Some ex_long_text)"
    "extract_text ex_env ''<br>'' = Inr None"
    by (simp_all add: ex_env_def)
  have a: "fetch_one ex_env ''https://a.example'' =
             url_content ''https://a.example'' (replicate 1000 (CHR ''x''))"
    using t[of "''https://a.example''" _ "\<lparr>page_status = 200, page_text = Inr ''<p>Paris</p>''\<rparr>"
        "''<p>Paris</p>''" ex_long_text] g
    by (simp add: ex_get_def ex_long_text_def)
  have b: "fetch_one ex_env ''https://b.example'' =
             url_error ''https://b.example'' ''Request timed out''"
    using t[of "''https://b.example''" ex_timeout] g
    by (simp add: ex_get_def ex_timeout_def)
  have c: "fetch_one ex_env ''https://c.example'' =
             url_error ''https://c.example'' ''Failed to retrieve content: HTTP 404''"
    using t[of "''https://c.example''" _ "\<lparr>page_status = 404, page_text = Inr ''Not Found''\<rparr>"] g
    by (simp add: ex_get_def str_nat.simps)
  have d: "fetch_one ex_env ''https://d.example'' =
             url_error ''https://d.example'' ''No main content extracted''"
    using t[of "''https://d.example''" _ "\<lparr>page_status = 200, page_text = Inr ''<br>''\<rparr>" "''<br>''"] g
    by (simp add: ex_get_def)
  have e: "fetch_one ex_env ''https://e.example'' =
             url_error ''https://e.example'' ''Client error: Cannot connect to host''"
    using t[of "''https://e.example''" ex_client_error] g
    by (simp add: ex_get_def ex_client_error_def)
  from t[THEN conjunct1] obtain results where r: "search_and_parse ex_env ex_query = Inr results"
    "length results = length ex_urls"
    "\<forall>i<length ex_urls. results ! i = fetch_one ex_env (ex_urls ! i)"
    by blast
  have l: "length ex_urls = 5"
    by (simp add: ex_urls_def)
  have n: "results ! 0 = fetch_one ex_env ''https://a.example''"
    "results ! 1 = fetch_one ex_env ''https://b.example''"
    "results ! 2 = fetch_one ex_env ''https://c.example''"
    "results ! 3 = fetch_one ex_env ''https://d.example''"
    "results ! 4 = fetch_one ex_env ''https://e.example''"
    using r(3) l by (simp_all add: ex_urls_def)
  have "\<exists>results. search_and_parse ex_env ex_query = Inr results \<and> length results = 5 \<and>
      results ! 0 = url_content ''https://a.example'' (replicate 1000 (CHR ''x'')) \<and>
      results ! 1 = url_error ''https://b.example'' ''Request timed out'' \<and>
      results ! 2 = url_error ''https://c.example'' ''Failed to retrieve content: HTTP 404'' \<and>
      results ! 3 = url_error ''https://d.example'' ''No main content extracted'' \<and>
      results ! 4 = url_error ''https://e.example'' ''Client error: Cannot connect to host''"
    using r(1,2) l n a b c d e by (intro exI[of _ results]) simp
  with h1 h2 h3 h4 show ?thesis
    by (intro conjI)
qed

section \<open>Failure of the search provider\<close>

text \<open>
  Claim C6. When the search call raises, or answers with a status other than 200,
  \<^verbatim>\<open>search_and_parse\<close> returns a list with exactly one error entry and does not raise. The
  conversation that called it then appends the tool message carrying that entry and makes
  the second completion request over the extended messages. When the second stream opens
  and ends without an exception, and the chunks of both streams have a choice, the run
  ends without an exception and the adapter's output is the narration of that one error
  between the search line and the final line, then the second stream's texts, then the
  rest of the first stream's.
\<close>

theorem search_provider_failure:
  assumes "create env (first_request (initial_messages user_prompt)) =
             Inr (pre @ c # post, failure1)"
    and "\<forall>x\<in>set pre. passed_over x"
    and "calls_search c f"
    and "fn_arguments f = Some a"
    and "json_loads env a = Inr (Dict d)"
    and "q = (case d ''query'' of None \<Rightarrow> PyNone | Some v \<Rightarrow> v)"
    and "(session_post env q = Inl e \<and>
            m = ''Error during search API request: '' @ message e) \<or>
         (session_post env q = Inr response \<and> status response \<noteq> 200 \<and>
            m = ''Serper API request failed with status code '' @ str_nat (status response))"
  shows "search_and_parse env q = Inr [error_only m] \<and>
         messages (fst (run_conversation env user_prompt)) =
           initial_messages user_prompt @ [tool_message [error_only m]] \<and>
         requests (fst (run_conversation env user_prompt)) =
           [first_request (initial_messages user_prompt),
            final_request (initial_messages user_prompt @ [tool_message [error_only m]])] \<and>
         (create env (final_request (initial_messages user_prompt @ [tool_message [error_only m]])) =
            Inr (chunks2, None) \<and>
          (\<forall>x\<in>set chunks2. well_formed x) \<and> (\<forall>x\<in>set post. well_formed x) \<and>
          failure1 = None \<longrightarrow>
            snd (run_conversation env user_prompt) = None \<and>
            generate_stream env user_prompt =
              (texts pre @
               [[NL] @ ''Searching the web for: '' @ py_str q @ [NL],
                ''Error for unknown URL: '' @ m @ [NL],
                [NL] @ ''Final response incorporating search results:'' @ [NL]] @
               texts chunks2 @ texts post, None))"
proof -
  have s: "search_and_parse env q = Inr [error_only m]"
    by (rule search_and_parse_failure[OF assms(7)])
  note r = run_reinjects[OF assms(1-6) s]
  have g: "snd (run_conversation env user_prompt) = None \<and>
            generate_stream env user_prompt =
              (texts pre @
               [[NL] @ ''Searching the web for: '' @ py_str q @ [NL],
                ''Error for unknown URL: '' @ m @ [NL],
                [NL] @ ''Final response incorporating search results:'' @ [NL]] @
               texts chunks2 @ texts post, None)"
    if h: "create env (final_request (initial_messages user_prompt @ [tool_message [error_only m]])) =
            Inr (chunks2, None)"
      "\<forall>x\<in>set chunks2. well_formed x" "\<forall>x\<in>set post. well_formed x" "failure1 = None"
    using run_tool_path[OF assms(1-6) s h(1-3)] h(4)
    by (simp add: generate_stream_def ex_narration searching_line_def final_line_def)
  from s r g show ?thesis
    by blast
qed

theorem search_provider_failure_witness:
  "create ex_env_search_down (first_request (initial_messages ex_prompt)) =
     Inr ([text_chunk ''Let me check.''] @ call_chunk ''search_and_parse'' ex_arguments #
            [text_chunk ''Anything else?''], None) \<and>
   list_all passed_over [text_chunk ''Let me check.''] \<and>
   calls_search (call_chunk ''search_and_parse'' ex_arguments) ex_function \<and>
   fn_arguments ex_function = Some ex_arguments \<and>
   json_loads ex_env_search_down ex_arguments = Inr (Dict [''query'' \<mapsto> ex_query]) \<and>
   session_post ex_env_search_down ex_query =
     Inr \<lparr>status = 500, json = Inl (other_error ''Expecting value'')\<rparr> \<and>
   search_and_parse ex_env_search_down ex_query =
     Inr [error_only ''Serper API request failed with status code 500''] \<and>
   messages (fst (run_conversation ex_env_search_down ex_prompt)) =
     initial_messages ex_prompt @
     [tool_message [error_only ''Serper API request failed with status code 500'']] \<and>
   requests (fst (run_conversation ex_env_search_down ex_prompt)) =
     [first_request (initial_messages ex_prompt),
      final_request (initial_messages ex_prompt @
        [tool_message [error_only ''Serper API request failed with status code 500'']])] \<and>
   snd (run_conversation ex_env_search_down ex_prompt) = None \<and>
   generate_stream ex_env_search_down ex_prompt =
     ([''Let me check.'',
       [NL] @ ''Searching the web for: weather in Paris'' @ [NL],
       ''Error for unknown URL: Serper API request failed with status code 500'' @ [NL],
       [NL] @ ''Final response incorporating search results:'' @ [NL],
       ''It is '', ''sunny.'', ''Anything else?''], None)"
proof -
  have h1: "create ex_env_search_down (first_request (initial_messages ex_prompt)) =
     Inr ([text_chunk ''Let me check.''] @ call_chunk ''search_and_parse'' ex_arguments #
            [text_chunk ''Anything else?''], None)"
    by (simp add: ex_search_down_same ex_create1)
  have h2: "\<forall>x\<in>set [text_chunk ''Let me check.'']. passed_over x"
    by (simp add: ex_text_chunk)
  have h5: "json_loads ex_env_search_down ex_arguments = Inr (Dict [''query'' \<mapsto> ex_query])"
    by (simp add: ex_search_down_same ex_loads)
  have p: "session_post ex_env_search_down ex_query =
     Inr \<lparr>status = 500, json = Inl (other_error ''Expecting value'')\<rparr>"
    by (simp add: ex_env_search_down_def)
  have n: "''Serper API request failed with status code 500'' =
      ''Serper API request failed with status code '' @
      str_nat (status \<lparr>status = 500, json = Inl (other_error ''Expecting value'')\<rparr>)"
    by (simp add: str_nat.simps)
  have h7: "(session_post ex_env_search_down ex_query = Inl ex_timeout \<and>
            ''Serper API request failed with status code 500'' =
              ''Error during search API request: '' @ message ex_timeout) \<or>
         (session_post ex_env_search_down ex_query =
            Inr \<lparr>status = 500, json = Inl (other_error ''Expecting value'')\<rparr> \<and>
          status \<lparr>status = 500, json = Inl (other_error ''Expecting value'')\<rparr> \<noteq> 200 \<and>
          ''Serper API request failed with status code 500'' =
            ''Serper API request failed with status code '' @
            str_nat (status \<lparr>status = 500, json = Inl (other_error ''Expecting value'')\<rparr>))"
    using p n by simp
  have h8: "create ex_env_search_down (final_request (initial_messages ex_prompt @
        [tool_message [error_only ''Serper API request failed with status code 500'']])) =
     Inr ([text_chunk ''It is '', text_chunk ''sunny.''], None)"
    by (simp add: ex_search_down_same ex_create2)
  have h9: "\<forall>x\<in>set [text_chunk ''It is '', text_chunk ''sunny.'']. well_formed x"
    by (simp add: ex_text_chunk)
  have h10: "\<forall>x\<in>set [text_chunk ''Anything else?'']. well_formed x"
    by (simp add: ex_text_chunk)
  note t = search_provider_failure[OF h1 h2 ex_call_chunk(1) ex_args h5 ex_q h7,
      of "[text_chunk ''It is '', text_chunk ''sunny.'']"]
  have g: "snd (run_conversation ex_env_search_down ex_prompt) = None"
    "generate_stream ex_env_search_down ex_prompt =
     ([''Let me check.'',
       [NL] @ ''Searching the web for: weather in Paris'' @ [NL],
       ''Error for unknown URL: Serper API request failed with status code 500'' @ [NL],
       [NL] @ ''Final response incorporating search results:'' @ [NL],
       ''It is '', ''sunny.'', ''Anything else?''], None)"
    using t h8 h9 h10 by (simp_all add: ex_texts ex_query_def)
  have l: "list_all passed_over [text_chunk ''Let me check.'']"
    by (simp add: ex_text_chunk)
  show ?thesis
    by (intro conjI h1 l ex_call_chunk(1) ex_args h5 p g
        t[THEN conjunct1] t[THEN conjunct2, THEN conjunct1]
        t[THEN conjunct2, THEN conjunct2, THEN conjunct1])
qed

section \<open>Truncation\<close>

text \<open>
  Claim C7. Whenever an entry of the list returned by \<^verbatim>\<open>search_and_parse\<close> holds a
  content, that content is the first 1000 characters of the text extracted from the
  entry's page: the whole text when it has at most 1000 characters, exactly 1000
  characters otherwise. The narration of the entry is its source line followed by a
  summary line whose preview is the first 200 characters of the stored content, a prefix
  of that content.
\<close>

theorem truncation_and_preview:
  assumes "search_and_parse env query = Inr results"
    and "r \<in> set results"
    and "r_content r = Some c"
  shows "\<exists>url response html extracted_text.
           r_url r = Some url \<and> session_get env url = Inr response \<and>
           page_text response = Inr html \<and>
           extract_text env html = Inr (Some extracted_text) \<and>
           c = take 1000 extracted_text \<and>
           (length extracted_text \<le> 1000 \<longrightarrow> c = extracted_text) \<and>
           (1000 < length extracted_text \<longrightarrow> length c = 1000) \<and>
           narrate [r] st =
             (st\<lparr>out := out st @ [''Found relevant information from: '' @ url @ [NL],
                                     ''Summary: '' @ take 200 c @ ''...'' @ [NL, NL]]\<rparr>, None) \<and>
           prefix (take 200 c) c"
proof -
  from search_and_parse_cases[OF assms(1)] assms(2,3)
  obtain url where r: "r = fetch_one env url"
    by (auto simp add: error_only_def)
  from assms(3) r have "r_content (fetch_one env url) = Some c"
    by simp
  then obtain resp html t where
    f: "session_get env url = Inr resp" "page_text resp = Inr html"
       "extract_text env html = Inr (Some t)" "c = take 1000 t"
    by (auto simp add: fetch_one_content)
  have u: "r_url r = Some url"
    by (simp add: r fetch_one_url)
  have e: "r_error r = None"
    using fetch_one_narratable[of env url] assms(3) r f
    by (auto simp add: fetch_one_def url_content_def url_error_def split: if_splits)
  have n: "narrate [r] st =
             (st\<lparr>out := out st @ [''Found relevant information from: '' @ url @ [NL],
                                     ''Summary: '' @ take 200 c @ ''...'' @ [NL, NL]]\<rparr>, None)"
    using u e assms(3) by (simp add: yield_def)
  have p: "prefix (take 200 c) c"
    by (simp add: take_is_prefix)
  from f u n p show ?thesis
    by (intro exI[of _ url] exI[of _ resp] exI[of _ html] exI[of _ t]) simp
qed

theorem truncation_and_preview_witness:
  "search_and_parse ex_env ex_query = Inr ex_results \<and>
   url_content ''https://a.example'' (replicate 1000 (CHR ''x'')) \<in> set ex_results \<and>
   r_content (url_content ''https://a.example'' (replicate 1000 (CHR ''x''))) =
     Some (replicate 1000 (CHR ''x'')) \<and>
   (\<exists>extracted_text.
      extract_text ex_env ''<p>Paris</p>'' = Inr (Some extracted_text) \<and>
      length extracted_text = 1200 \<and>
      replicate 1000 (CHR ''x'') = take 1000 extracted_text) \<and>
   (\<exists>url response html extracted_text.
      r_url (url_content ''https://a.example'' (replicate 1000 (CHR ''x''))) = Some url \<and>
      session_get ex_env url = Inr response \<and>
      page_text response = Inr html \<and>
      extract_text ex_env html = Inr (Some extracted_text) \<and>
      replicate 1000 (CHR ''x'') = take 1000 extracted_text \<and>
      (length extracted_text \<le> 1000 \<longrightarrow> replicate 1000 (CHR ''x'') = extracted_text) \<and>
      (1000 < length extracted_text \<longrightarrow> length (replicate 1000 (CHR ''x'')) = 1000) \<and>
      narrate [url_content ''https://a.example'' (replicate 1000 (CHR ''x''))] (initial_conv ex_prompt) =
        ((initial_conv ex_prompt)
           \<lparr>out := out (initial_conv ex_prompt) @
                    [''Found relevant information from: '' @ url @ [NL],
                     ''Summary: '' @ take 200 (replicate 1000 (CHR ''x'')) @ ''...'' @ [NL, NL]]\<rparr>,
         None) \<and>
      prefix (take 200 (replicate 1000 (CHR ''x''))) (replicate 1000 (CHR ''x'')))"
proof -
  have h1: "search_and_parse ex_env ex_query = Inr ex_results"
    by (rule ex_search)
  have h2: "url_content ''https://a.example'' (replicate 1000 (CHR ''x'')) \<in> set ex_results"
    by (simp add: ex_results_def)
  have h3: "r_content (url_content ''https://a.example'' (replicate 1000 (CHR ''x''))) =
              Some (replicate 1000 (CHR ''x''))"
    by (simp add: url_content_def)
  have h4: "\<exists>extracted_text.
      extract_text ex_env ''<p>Paris</p>'' = Inr (Some extracted_text) \<and>
      length extracted_text = 1200 \<and>
      replicate 1000 (CHR ''x'') = take 1000 extracted_text"
    by (simp add: ex_env_def ex_long_text_def)
  show ?thesis
    by (intro conjI h1 h2 h3 h4 truncation_and_preview[OF h1 h2 h3])
qed

section \<open>The failure boundary\<close>

text \<open>
  Claim C8, as amended. No exception leaves \<^verbatim>\<open>generate_stream\<close>. When an exception leaves
  \<^verbatim>\<open>run_conversation\<close> after some fragments, the adapter yields those fragments and then
  exactly one more, \<^verbatim>\<open>An error occurred: \<close> followed by the text of the exception it is
  handed; when none does, the adapter yields the fragments and nothing else. The exception
  it is handed is the one raised, with its own text, unless that one is a
  \<^verbatim>\<open>StopIteration\<close> or a \<^verbatim>\<open>StopAsyncIteration\<close>: then it is the generator's
  \<^verbatim>\<open>RuntimeError\<close>, and the fragment names the class and not the text of the exception
  raised. So a model service that refuses the first request gives the error fragment
  alone, and a first stream that breaks gives the texts received so far and then the
  error fragment. Exceptions are instances of \<^verbatim>\<open>Exception\<close> throughout.
\<close>

theorem failure_boundary:
  "snd (generate_stream env query) = None \<and>
   (run_conversation env query = (st, Some e) \<longrightarrow>
      generate_stream env query = (out st @ [''An error occurred: '' @ message e], None)) \<and>
   (run_conversation env query = (st, None) \<longrightarrow>
      generate_stream env query = (out st, None)) \<and>
   (create env (first_request (initial_messages query)) = Inl (e, None) \<longrightarrow>
      generate_stream env query = ([''An error occurred: '' @ message e], None)) \<and>
   (create env (first_request (initial_messages query)) = Inl (e, Some StopIteration) \<longrightarrow>
      generate_stream env query =
        ([''An error occurred: async generator raised StopIteration''], None)) \<and>
   (create env (first_request (initial_messages query)) = Inl (e, Some StopAsyncIteration) \<longrightarrow>
      generate_stream env query =
        ([''An error occurred: async generator raised StopAsyncIteration''], None)) \<and>
   (create env (first_request (initial_messages query)) = Inr (chunks, Some e) \<and>
    (\<forall>c\<in>set chunks. no_signal c) \<longrightarrow>
      generate_stream env query = (texts chunks @ [''An error occurred: '' @ message e], None))"
proof -
  have 1: "snd (generate_stream env query) = None"
    by (simp add: generate_stream_def split: prod.split option.split)
  have 2: "run_conversation env query = (st, Some e) \<longrightarrow>
      generate_stream env query = (out st @ [''An error occurred: '' @ message e], None)"
    by (simp add: generate_stream_def)
  have 3: "run_conversation env query = (st, None) \<longrightarrow>
      generate_stream env query = (out st, None)"
    by (simp add: generate_stream_def)
  have 4: "create env (first_request (initial_messages query)) = Inl (e, None) \<longrightarrow>
      generate_stream env query = ([''An error occurred: '' @ message e], None)"
    by (simp add: generate_stream_def run_conversation_def initial_conv_def)
  have 5: "create env (first_request (initial_messages query)) = Inl (e, Some StopIteration) \<longrightarrow>
      generate_stream env query =
        ([''An error occurred: async generator raised StopIteration''], None)"
    by (simp add: generate_stream_def run_conversation_def initial_conv_def RuntimeError_def
        other_error_def)
  have 6: "create env (first_request (initial_messages query)) = Inl (e, Some StopAsyncIteration) \<longrightarrow>
      generate_stream env query =
        ([''An error occurred: async generator raised StopAsyncIteration''], None)"
    by (simp add: generate_stream_def run_conversation_def initial_conv_def RuntimeError_def
        other_error_def)
  have 7: "create env (first_request (initial_messages query)) = Inr (chunks, Some e) \<and>
    (\<forall>c\<in>set chunks. no_signal c) \<longrightarrow>
      generate_stream env query = (texts chunks @ [''An error occurred: '' @ message e], None)"
  proof
    assume a: "create env (first_request (initial_messages query)) = Inr (chunks, Some e) \<and>
      (\<forall>c\<in>set chunks. no_signal c)"
    then have "run_conversation env query = ((initial_conv query)\<lparr>out := texts chunks\<rparr>, Some e)"
      using run_without_signal[of env query chunks "Some e"] by blast
    then show "generate_stream env query =
        (texts chunks @ [''An error occurred: '' @ message e], None)"
      by (simp add: generate_stream_def)
  qed
  from 1 2 3 4 5 6 7 show ?thesis
    by (intro conjI)
qed

theorem failure_boundary_witness:
  "create ex_env_broken (first_request (initial_messages ex_prompt)) =
     Inr ([text_chunk ''Let me''], Some (other_error ''Connection reset'')) \<and>
   list_all no_signal [text_chunk ''Let me''] \<and>
   snd (run_conversation ex_env_broken ex_prompt) = Some (other_error ''Connection reset'') \<and>
   generate_stream ex_env_broken ex_prompt =
     ([''Let me'', ''An error occurred: Connection reset''], None) \<and>
   create ex_env_stopped (first_request (initial_messages ex_prompt)) =
     Inl (other_error ''quota exceeded'', Some StopAsyncIteration) \<and>
   generate_stream ex_env_stopped ex_prompt =
     ([''An error occurred: async generator raised StopAsyncIteration''], None) \<and>
   snd (generate_stream ex_env_stopped ex_prompt) = None"
proof -
  have c: "create ex_env_broken (first_request (initial_messages ex_prompt)) =
     Inr ([text_chunk ''Let me''], Some (other_error ''Connection reset''))"
    by (simp add: ex_env_broken_def)
  have n: "\<forall>c\<in>set [text_chunk ''Let me'']. no_signal c"
    by (simp add: ex_text_chunk)
  have l: "list_all no_signal [text_chunk ''Let me'']"
    by (simp add: ex_text_chunk)
  have r: "snd (run_conversation ex_env_broken ex_prompt) = Some (other_error ''Connection reset'')"
    using run_without_signal[OF c n] by simp
  have g: "generate_stream ex_env_broken ex_prompt =
     ([''Let me'', ''An error occurred: Connection reset''], None)"
    using failure_boundary[of ex_env_broken ex_prompt _ "other_error ''Connection reset''"
        "[text_chunk ''Let me'']"] c n
    by (simp add: texts_def ex_text_chunk other_error_def)
  have d: "create ex_env_stopped (first_request (initial_messages ex_prompt)) =
     Inl (other_error ''quota exceeded'', Some StopAsyncIteration)"
    by (simp add: ex_env_stopped_def)
  note t = failure_boundary[of ex_env_stopped ex_prompt _ "other_error ''quota exceeded''"]
  have h: "generate_stream ex_env_stopped ex_prompt =
     ([''An error occurred: async generator raised StopAsyncIteration''], None)"
    using t d by blast
  have k: "snd (generate_stream ex_env_stopped ex_prompt) = None"
    using t by blast
  show ?thesis
    by (intro conjI c l r g d h k)
qed

text \<open>
  The claim as stated, a last fragment that contains the message of the exception raised,
  fails: when the first request raises \<^verbatim>\<open>StopAsyncIteration\<close> with the text
  \<^verbatim>\<open>quota exceeded\<close>, the last fragment does not contain that text.
\<close>

theorem exception_message_counterexample:
  "create ex_env_stopped (first_request (initial_messages ex_prompt)) =
     Inl (other_error ''quota exceeded'', Some StopAsyncIteration) \<and>
   message (other_error ''quota exceeded'') = ''quota exceeded'' \<and>
   generate_stream ex_env_stopped ex_prompt =
     ([''An error occurred: async generator raised StopAsyncIteration''], None) \<and>
   \<not> sublist ''quota exceeded''
        ''An error occurred: async generator raised StopAsyncIteration''"
proof -
  have d: "create ex_env_stopped (first_request (initial_messages ex_prompt)) =
     Inl (other_error ''quota exceeded'', Some StopAsyncIteration)"
    by (simp add: ex_env_stopped_def)
  have m: "message (other_error ''quota exceeded'') = ''quota exceeded''"
    by (simp add: other_error_def)
  have g: "generate_stream ex_env_stopped ex_prompt =
     ([''An error occurred: async generator raised StopAsyncIteration''], None)"
    using d
    by (simp add: generate_stream_def run_conversation_def initial_conv_def RuntimeError_def
        other_error_def)
  have s: "\<not> sublist ''quota exceeded''
        ''An error occurred: async generator raised StopAsyncIteration''"
  proof
    assume "sublist ''quota exceeded''
        ''An error occurred: async generator raised StopAsyncIteration''"
    then have "set ''quota exceeded'' \<subseteq>
        set ''An error occurred: async generator raised StopAsyncIteration''"
      by (rule set_mono_sublist)
    then show False
      by simp
  qed
  show ?thesis
    by (intro conjI d m g s)
qed

section \<open>The messages of a conversation\<close>

text \<open>
  Claim C9. At the end of every run the messages are the system message and the user
  message followed by nothing or by exactly one tool message, so at most one message has
  the role \<^verbatim>\<open>function\<close>. In the first case the only request made is the first one; in the
  second a second request has been made, over the extended messages. Every step of the
  first loop, and the loop as a whole from any state, leaves the old messages in place as
  a prefix of the new ones. The second request carries the messages it is given and no
  tool declaration and no tool choice, while the first declares \<^verbatim>\<open>search_and_parse\<close>.
\<close>

theorem conversation_state:
  "(\<exists>extra.
      messages (fst (run_conversation env user_prompt)) =
        [system_message, user_message user_prompt] @ extra \<and>
      ((extra = [] \<and>
        requests (fst (run_conversation env user_prompt)) =
          [first_request [system_message, user_message user_prompt]]) \<or>
       (\<exists>results.
          extra = [tool_message results] \<and>
          requests (fst (run_conversation env user_prompt)) =
            [first_request [system_message, user_message user_prompt],
             final_request ([system_message, user_message user_prompt] @
                              [tool_message results])]))) \<and>
   length (filter (\<lambda>m. role m = ''function'')
             (messages (fst (run_conversation env user_prompt)))) \<le> 1 \<and>
   prefix (messages st) (messages (fst (on_chunk env c st))) \<and>
   prefix (messages st) (messages (fst (stream_loop env cs failure st))) \<and>
   req_messages (final_request msgs) = msgs \<and>
   req_tools (final_request msgs) = None \<and>
   req_tool_choice (final_request msgs) = None \<and>
   req_tools (first_request msgs) = Some [''search_and_parse'']"
proof -
  have k: "conv_ok user_prompt (fst (run_conversation env user_prompt))"
    by (rule run_conversation_conv_ok)
  have 1: "\<exists>extra.
      messages (fst (run_conversation env user_prompt)) =
        [system_message, user_message user_prompt] @ extra \<and>
      ((extra = [] \<and>
        requests (fst (run_conversation env user_prompt)) =
          [first_request [system_message, user_message user_prompt]]) \<or>
       (\<exists>results.
          extra = [tool_message results] \<and>
          requests (fst (run_conversation env user_prompt)) =
            [first_request [system_message, user_message user_prompt],
             final_request ([system_message, user_message user_prompt] @
                              [tool_message results])]))"
    using k unfolding conv_ok_def initial_messages_def by auto
  have 2: "length (filter (\<lambda>m. role m = ''function'')
             (messages (fst (run_conversation env user_prompt)))) \<le> 1"
    using k unfolding conv_ok_def initial_messages_def
    by (auto simp add: system_message_def user_message_def tool_message_def)
  have 3: "req_messages (final_request msgs) = msgs" "req_tools (final_request msgs) = None"
    "req_tool_choice (final_request msgs) = None"
    "req_tools (first_request msgs) = Some [''search_and_parse'']"
    by (simp_all add: final_request_def first_request_def)
  from 1 2 3 on_chunk_prefix[of st env c] stream_loop_prefix[of st env cs failure]
  show ?thesis
    by (intro conjI)
qed

theorem conversation_state_witness:
  "messages (fst (run_conversation ex_env_twice ex_prompt)) =
     [system_message, user_message ex_prompt] @ [tool_message ex_results] \<and>
   requests (fst (run_conversation ex_env_twice ex_prompt)) =
     [first_request [system_message, user_message ex_prompt],
      final_request ([system_message, user_message ex_prompt] @ [tool_message ex_results])] \<and>
   length (filter (\<lambda>m. role m = ''function'')
             (messages (fst (run_conversation ex_env_twice ex_prompt)))) = 1 \<and>
   req_tools (final_request ([system_message, user_message ex_prompt] @
                               [tool_message ex_results])) = None"
proof -
  note t = conversation_state[of ex_env_twice ex_prompt]
  have m: "messages (fst (run_conversation ex_env_twice ex_prompt)) =
     [system_message, user_message ex_prompt] @ [tool_message ex_results]"
    by (simp add: ex_twice_run initial_messages_def)
  have r: "requests (fst (run_conversation ex_env_twice ex_prompt)) =
     [first_request [system_message, user_message ex_prompt],
      final_request ([system_message, user_message ex_prompt] @ [tool_message ex_results])]"
    by (simp add: ex_twice_run initial_messages_def)
  have "length (filter (\<lambda>m. role m = ''function'')
             (messages (fst (run_conversation ex_env_twice ex_prompt)))) \<le> 1"
    using t by blast
  moreover have "1 \<le> length (filter (\<lambda>m. role m = ''function'')
             (messages (fst (run_conversation ex_env_twice ex_prompt))))"
    unfolding m by (simp add: tool_message_def)
  ultimately have l: "length (filter (\<lambda>m. role m = ''function'')
             (messages (fst (run_conversation ex_env_twice ex_prompt)))) = 1"
    by simp
  have n: "req_tools (final_request ([system_message, user_message ex_prompt] @
                               [tool_message ex_results])) = None"
    using t by blast
  show ?thesis
    by (intro conjI m r l n)
qed

section \<open>The first stream resumes after the second\<close>

text \<open>
  Claim C10. In a conversation whose search call is honored and whose second stream ends
  without an exception, the loop over the first stream goes on with the chunks that follow
  the call: their texts come in the output after all the texts of the second stream, and
  the run ends as the first stream ends. So the output need not end with the second
  stream's text.
\<close>

theorem stream1_resumes_after_stream2:
  assumes "create env (first_request (initial_messages user_prompt)) =
             Inr (pre @ c # post, failure1)"
    and "\<forall>x\<in>set pre. passed_over x"
    and "calls_search c f"
    and "fn_arguments f = Some a"
    and "json_loads env a = Inr (Dict d)"
    and "q = (case d ''query'' of None \<Rightarrow> PyNone | Some v \<Rightarrow> v)"
    and "search_and_parse env q = Inr results"
    and "create env (final_request (initial_messages user_prompt @ [tool_message results])) =
           Inr (chunks2, None)"
    and "\<forall>x\<in>set chunks2. well_formed x"
    and "\<forall>x\<in>set post. well_formed x"
  shows "out (fst (run_conversation env user_prompt)) =
           (texts pre @ [searching_line q] @ concat (map narration results) @ [final_line]) @
           texts chunks2 @ texts post \<and>
         snd (run_conversation env user_prompt) = failure1"
  by (simp add: run_tool_path[OF assms])

theorem stream1_resumes_after_stream2_witness:
  "create ex_env (first_request (initial_messages ex_prompt)) =
     Inr ([text_chunk ''Let me check.''] @ call_chunk ''search_and_parse'' ex_arguments #
            [text_chunk ''Anything else?''], None) \<and>
   list_all passed_over [text_chunk ''Let me check.''] \<and>
   calls_search (call_chunk ''search_and_parse'' ex_arguments) ex_function \<and>
   fn_arguments ex_function = Some ex_arguments \<and>
   json_loads ex_env ex_arguments = Inr (Dict [''query'' \<mapsto> ex_query]) \<and>
   search_and_parse ex_env ex_query = Inr ex_results \<and>
   create ex_env (final_request (initial_messages ex_prompt @ [tool_message ex_results])) =
     Inr ([text_chunk ''It is '', text_chunk ''sunny.''], None) \<and>
   list_all well_formed [text_chunk ''It is '', text_chunk ''sunny.''] \<and>
   list_all well_formed [text_chunk ''Anything else?''] \<and>
   out (fst (run_conversation ex_env ex_prompt)) =
     (texts [text_chunk ''Let me check.''] @ [searching_line ex_query] @
      concat (map narration ex_results) @ [final_line]) @
     [''It is '', ''sunny.''] @ [''Anything else?''] \<and>
   last (out (fst (run_conversation ex_env ex_prompt))) = ''Anything else?'' \<and>
   snd (run_conversation ex_env ex_prompt) = None"
proof -
  note h1 = ex_create1
  have h2: "\<forall>x\<in>set [text_chunk ''Let me check.'']. passed_over x"
    by (simp add: ex_text_chunk)
  note h8 = ex_create2[of "initial_messages ex_prompt @ [tool_message ex_results]"]
  have h9: "\<forall>x\<in>set [text_chunk ''It is '', text_chunk ''sunny.'']. well_formed x"
    by (simp add: ex_text_chunk)
  have h10: "\<forall>x\<in>set [text_chunk ''Anything else?'']. well_formed x"
    by (simp add: ex_text_chunk)
  note t = stream1_resumes_after_stream2[OF h1 h2 ex_call_chunk(1) ex_args ex_loads ex_q
      ex_search h8 h9 h10]
  have o: "out (fst (run_conversation ex_env ex_prompt)) =
     (texts [text_chunk ''Let me check.''] @ [searching_line ex_query] @
      concat (map narration ex_results) @ [final_line]) @
     [''It is '', ''sunny.''] @ [''Anything else?'']"
    using t by (simp add: ex_texts)
  have e: "last (out (fst (run_conversation ex_env ex_prompt))) = ''Anything else?''"
    unfolding o by simp
  have s: "snd (run_conversation ex_env ex_prompt) = None"
    using t by simp
  have l: "list_all passed_over [text_chunk ''Let me check.'']"
    "list_all well_formed [text_chunk ''It is '', text_chunk ''sunny.'']"
    "list_all well_formed [text_chunk ''Anything else?'']"
    by (simp_all add: ex_text_chunk)
  show ?thesis
    by (intro conjI h1 l ex_call_chunk(1) ex_args ex_loads ex_search h8 o e s)
qed

end
